theory Spec2Isabelle
  imports Complex_Main
begin

section \<open>Shared data model\<close>

text \<open>
  The three entry points of the repository (\<^verbatim>\<open>eval_monte_carlo\<close> in
  \<^verbatim>\<open>grama/evals/random_sampling.py\<close>, \<^verbatim>\<open>eval_nls\<close> and \<^verbatim>\<open>eval_min\<close> in
  \<^verbatim>\<open>grama/eval_opt.py\<close>) are embedded as HOL functions.  A finite float is the real
  number it denotes.  The only arithmetic the source itself does on floats is the
  affine map of the sampler; there every operation is an operation on doubles: it
  follows the rules of the infinities and of NaN, and rounds the exact result of finite
  operands with the rounding function of the platform, a parameter of the model.
  Where the code tests a float (\<^verbatim>\<open>wid == 0\<close>, \<^verbatim>\<open>isfinite\<close>) or passes it on, the
  non-finite values are kept as well (\<open>pyfloat\<close>).  Every raise of the source, and every implicit raise of an
  indexing or a lookup, is a value of type \<open>error\<close>.
\<close>

datatype error =
    DensityLengthMismatch       \<comment> \<open>ValueError: pdf_factors not same length as pdf_param\<close>
  | DensityNotFactorable        \<comment> \<open>ValueError: Model density must be factorable\<close>
  | SeedRejected                \<comment> \<open>raised by np.random.seed on a seed it does not accept\<close>
  | ShapeMismatch               \<comment> \<open>ValueError of numpy / pandas: shapes cannot be broadcast\<close>
  | IndexError
  | KeyError string
  | AttributeError
  | TypeError
  | OutNotSubset "string set"   \<comment> \<open>ValueError: out must be subset of df_data.columns; difference = ...\<close>
  | NoVarFit                    \<comment> \<open>ValueError: No var selected for fitting\<close>
  | NonFiniteNominal "string list" \<comment> \<open>ValueError: ... must finite nominal value; offending var = ...\<close>
  | NotImplementedError
  | HasRandomVariables          \<comment> \<open>ValueError: model must have no random variables\<close>
  | MissingOutMin               \<comment> \<open>ValueError: model must contain out_min\<close>
  | MissingOutGeq "string set"  \<comment> \<open>ValueError: model must contain each out_geq; missing ...\<close>
  | MissingOutEq "string set"   \<comment> \<open>ValueError: model must contain each out_eq; missing ...\<close>
  | RaisedInSolver error        \<comment> \<open>whatever \<^verbatim>\<open>scipy.optimize.minimize\<close> raised, tagged with its origin\<close>

datatype pyfloat = Fin real | PosInf | NegInf | NaN

fun isfinite :: "pyfloat \<Rightarrow> bool" where
  "isfinite (Fin _) = True"
| "isfinite _ = False"

type_synonym matrix = "real list list"

record 'a table =
  columns :: "string list"
  rows :: "'a list list"

record density =
  pdf_factors :: "string list"
  pdf_param :: "(string \<rightharpoonup> real) list"
  pdf_corr :: "real list option"
  marginals :: "string \<rightharpoonup> (real \<Rightarrow> pyfloat)"
    \<comment> \<open>each marginal is represented by its quantile function \<^verbatim>\<open>q\<close>\<close>

record domain =
  inputs :: "string list"
  get_width :: "string \<Rightarrow> pyfloat"
  get_nominal :: "string \<Rightarrow> pyfloat"
  get_bound :: "string \<Rightarrow> pyfloat \<times> pyfloat"

record model =
  n_in :: nat
  var :: "string list"
  var_det :: "string list"
  var_rand :: "string list"
  out :: "string list"
  domain :: domain
  density :: "density option"

section \<open>The correlated sampler: \<^verbatim>\<open>eval_monte_carlo\<close>\<close>

subsection \<open>numpy array primitives used by the sampler\<close>

definition np_eye :: "nat \<Rightarrow> matrix" where
  "np_eye n = map (\<lambda>i. map (\<lambda>j. if i = j then 1 else 0) [0..<n]) [0..<n]"

definition np_ones :: "nat \<Rightarrow> real list" where
  "np_ones n = replicate n 1"

text \<open>
  \<^verbatim>\<open>np.triu_indices(n, k)\<close> and \<^verbatim>\<open>np.tril_indices(n, k)\<close>: the positions \<open>(i, j)\<close> of the
  \<open>n \<times> n\<close> array with \<open>j - i \<ge> k\<close> (respectively \<open>j - i \<le> k\<close>), both in row-major order.
\<close>

definition triu_indices :: "nat \<Rightarrow> int \<Rightarrow> (nat \<times> nat) list" where
  "triu_indices n k =
     concat (map (\<lambda>i. map (\<lambda>j. (i, j)) (filter (\<lambda>j. k \<le> int j - int i) [0..<n])) [0..<n])"

definition tril_indices :: "nat \<Rightarrow> int \<Rightarrow> (nat \<times> nat) list" where
  "tril_indices n k =
     concat (map (\<lambda>i. map (\<lambda>j. (i, j)) (filter (\<lambda>j. int j - int i \<le> k) [0..<n])) [0..<n])"

definition set_entry :: "matrix \<Rightarrow> (nat \<times> nat) \<times> real \<Rightarrow> matrix" where
  "set_entry M e = (case e of ((i, j), v) \<Rightarrow> M[i := (M ! i)[j := v]])"

text \<open>
  \<^verbatim>\<open>M[idx] = vals\<close> with an index pair of arrays: the values are broadcast to the number
  of positions (same length, or a single value repeated), otherwise numpy raises;
  then the positions are written in order.
\<close>

definition broadcast_to :: "nat \<Rightarrow> real list \<Rightarrow> error + real list" where
  "broadcast_to k vals =
     (if length vals = k then Inr vals
      else if length vals = 1 then Inr (replicate k (hd vals))
      else Inl ShapeMismatch)"

definition assign_at :: "matrix \<Rightarrow> (nat \<times> nat) list \<Rightarrow> real list \<Rightarrow> error + matrix" where
  "assign_at M idx vals =
     (case broadcast_to (length idx) vals of
        Inl e \<Rightarrow> Inl e
      | Inr vs \<Rightarrow> Inr (foldl set_entry M (zip idx vs)))"

definition build_Sigma :: "nat \<Rightarrow> real list \<Rightarrow> error + matrix" where
  "build_Sigma n corr =
     (case assign_at (np_eye n) (triu_indices n 1) corr of
        Inl e \<Rightarrow> Inl e
      | Inr S \<Rightarrow> assign_at S (tril_indices n (-1)) corr)"

text \<open>The two properties of a correlation matrix of size \<open>n\<close>, as executable checks.\<close>

definition symmetric :: "nat \<Rightarrow> matrix \<Rightarrow> bool" where
  "symmetric n M = list_all (\<lambda>i. list_all (\<lambda>j. M ! i ! j = M ! j ! i) [0..<n]) [0..<n]"

definition unit_diagonal :: "nat \<Rightarrow> matrix \<Rightarrow> bool" where
  "unit_diagonal n M = list_all (\<lambda>i. M ! i ! i = 1) [0..<n]"

subsection \<open>External collaborators of the sampler\<close>

text \<open>
  The process-wide random-number state of numpy is threaded explicitly: \<open>'s\<close> is the
  type of generator states.  \<^verbatim>\<open>np.random.seed\<close> replaces the state by one that depends on
  the seed alone (\<open>None\<close>: numpy rejects the seed); the two draws read the state and
  return the drawn \<open>size \<times> n\<close> array with the advanced state.  \<^verbatim>\<open>scipy.stats.norm\<close>
  provides the normal cumulative distribution function and its inverse; the inverse is
  applied to an entry of the sample array and may return an infinity or NaN.  \<open>fl\<close>
  maps the exact result of one arithmetic operation on finite doubles to what the
  operation returns: the nearest double, or an infinity when the result overflows.
\<close>

record 's numpy =
  np_random_seed :: "int \<Rightarrow> 's option"
  np_random_multivariate_normal :: "'s \<Rightarrow> real list \<Rightarrow> matrix \<Rightarrow> nat \<Rightarrow> matrix \<times> 's"
  np_random_random :: "'s \<Rightarrow> nat \<Rightarrow> nat \<Rightarrow> matrix \<times> 's"
  norm_cdf :: "real \<Rightarrow> real"
  norm_ppf :: "pyfloat \<Rightarrow> real \<Rightarrow> real \<Rightarrow> pyfloat"   \<comment> \<open>arguments: p, loc, scale\<close>
  fl :: "real \<Rightarrow> pyfloat"

text \<open>The Evaluator \<^verbatim>\<open>core.eval_df(model, df, append)\<close>; it may raise.\<close>

type_synonym 'a evaluator = "model \<Rightarrow> 'a table \<Rightarrow> bool \<Rightarrow> error + 'a table"

subsection \<open>The sampler\<close>

definition set_seed :: "'s numpy \<Rightarrow> 's \<Rightarrow> int option \<Rightarrow> error + 's" where
  "set_seed np s seed =
     (case seed of
        None \<Rightarrow> Inr s
      | Some sd \<Rightarrow> (case np_random_seed np sd of None \<Rightarrow> Inl SeedRejected | Some s' \<Rightarrow> Inr s'))"

text \<open>The mean vector handed to the correlated-normal draw (line 39).\<close>

definition gaussian_mean :: "model \<Rightarrow> real list" where
  "gaussian_mean m = np_ones (n_in m)"

definition draw_samples ::
  "'s numpy \<Rightarrow> 's \<Rightarrow> model \<Rightarrow> density \<Rightarrow> nat \<Rightarrow> (error + matrix) \<times> 's" where
  "draw_samples np s m d n_samples =
     (case pdf_corr d of
        Some corr \<Rightarrow>
          (case build_Sigma (n_in m) corr of
             Inl e \<Rightarrow> (Inl e, s)
           | Inr Sig \<Rightarrow>
               (case np_random_multivariate_normal np s (gaussian_mean m) Sig n_samples of
                  (gaussian_samples, s') \<Rightarrow> (Inr (map (map (norm_cdf np)) gaussian_samples), s')))
      | None \<Rightarrow>
          (case np_random_random np s n_samples (n_in m) of
             (samples, s') \<Rightarrow> (Inr samples, s')))"

text \<open>
  Addition and multiplication of doubles, for the rounding \<open>r\<close> of finite results:
  NaN propagates, \<open>\<infinity> - \<infinity>\<close> and \<open>0 * \<infinity>\<close> are NaN, and an infinity otherwise wins
  with the sign of the result.
\<close>

fun f_add :: "(real \<Rightarrow> pyfloat) \<Rightarrow> pyfloat \<Rightarrow> pyfloat \<Rightarrow> pyfloat" where
  "f_add r NaN b = NaN"
| "f_add r a NaN = NaN"
| "f_add r (Fin x) (Fin y) = r (x + y)"
| "f_add r PosInf NegInf = NaN"
| "f_add r NegInf PosInf = NaN"
| "f_add r PosInf b = PosInf"
| "f_add r a PosInf = PosInf"
| "f_add r NegInf b = NegInf"
| "f_add r a NegInf = NegInf"

fun f_mul :: "(real \<Rightarrow> pyfloat) \<Rightarrow> pyfloat \<Rightarrow> pyfloat \<Rightarrow> pyfloat" where
  "f_mul r NaN b = NaN"
| "f_mul r a NaN = NaN"
| "f_mul r (Fin x) (Fin y) = r (x * y)"
| "f_mul r (Fin x) PosInf = (if x = 0 then NaN else if 0 < x then PosInf else NegInf)"
| "f_mul r (Fin x) NegInf = (if x = 0 then NaN else if 0 < x then NegInf else PosInf)"
| "f_mul r PosInf (Fin y) = (if y = 0 then NaN else if 0 < y then PosInf else NegInf)"
| "f_mul r NegInf (Fin y) = (if y = 0 then NaN else if 0 < y then NegInf else PosInf)"
| "f_mul r PosInf PosInf = PosInf"
| "f_mul r PosInf NegInf = NegInf"
| "f_mul r NegInf PosInf = NegInf"
| "f_mul r NegInf NegInf = PosInf"

text \<open>
  Lines 53 to 56: \<^verbatim>\<open>u * (upper - lower) + lower\<close> for an entry \<open>u\<close> of the array: the
  subtraction of the two parameters, then a multiplication and an addition of doubles.
\<close>

definition affine :: "'s numpy \<Rightarrow> real \<Rightarrow> real \<Rightarrow> pyfloat \<Rightarrow> pyfloat" where
  "affine np lower upper u =
     f_add (fl np) (f_mul (fl np) u (fl np (upper - lower))) (Fin lower)"

text \<open>
  One pass of the loop body (lines 51 to 63) for the column \<open>ind\<close>: the column of every
  row is overwritten.  A family name other than \<^verbatim>\<open>"unif"\<close> and \<^verbatim>\<open>"norm"\<close> matches no
  branch.
\<close>

definition update_column ::
  "nat \<Rightarrow> (pyfloat \<Rightarrow> pyfloat) \<Rightarrow> pyfloat list list \<Rightarrow> pyfloat list list" where
  "update_column ind f samples = map (\<lambda>r. r[ind := f (r ! ind)]) samples"

definition convert_column ::
  "'s numpy \<Rightarrow> density \<Rightarrow> nat \<Rightarrow> pyfloat list list \<Rightarrow> error + pyfloat list list" where
  "convert_column np d ind samples =
     (if length (pdf_factors d) \<le> ind then Inl IndexError
      else if pdf_factors d ! ind = ''unif'' then
        (if length (pdf_param d) \<le> ind then Inl IndexError
         else case (pdf_param d ! ind) ''upper'' of
            None \<Rightarrow> Inl (KeyError ''upper'')
          | Some upper \<Rightarrow>
             (case (pdf_param d ! ind) ''lower'' of
                None \<Rightarrow> Inl (KeyError ''lower'')
              | Some lower \<Rightarrow>
                  Inr (update_column ind (affine np lower upper) samples)))
      else if pdf_factors d ! ind = ''norm'' then
        (if length (pdf_param d) \<le> ind then Inl IndexError
         else case (pdf_param d ! ind) ''loc'' of
            None \<Rightarrow> Inl (KeyError ''loc'')
          | Some loc \<Rightarrow>
             (case (pdf_param d ! ind) ''scale'' of
                None \<Rightarrow> Inl (KeyError ''scale'')
              | Some scale \<Rightarrow>
                  Inr (update_column ind (\<lambda>u. norm_ppf np u loc scale) samples)))
      else Inr samples)"

fun convert_marginals ::
  "'s numpy \<Rightarrow> density \<Rightarrow> nat list \<Rightarrow> pyfloat list list \<Rightarrow> error + pyfloat list list" where
  "convert_marginals np d [] samples = Inr samples"
| "convert_marginals np d (ind # inds) samples =
     (case convert_column np d ind samples of
        Inl e \<Rightarrow> Inl e
      | Inr samples' \<Rightarrow> convert_marginals np d inds samples')"

text \<open>
  \<^verbatim>\<open>pd.DataFrame(data = samples, columns = model.domain.inputs)\<close>: pandas raises when the
  number of column names differs from the number of columns of the array, which is
  \<^verbatim>\<open>model.n_in\<close>.
\<close>

definition make_inputs :: "model \<Rightarrow> pyfloat list list \<Rightarrow> error + pyfloat table" where
  "make_inputs m samples =
     (if length (inputs (domain m)) \<noteq> n_in m then Inl ShapeMismatch
      else Inr \<lparr>columns = inputs (domain m), rows = samples\<rparr>)"

text \<open>
  Everything up to the table of inputs handed to the Evaluator, with the final state of
  the random-number generator.  The values drawn are finite doubles; the loop over the
  marginals works on the array of doubles.
\<close>

definition sample_inputs ::
  "'s numpy \<Rightarrow> 's \<Rightarrow> model \<Rightarrow> nat \<Rightarrow> int option \<Rightarrow> (error + pyfloat table) \<times> 's" where
  "sample_inputs np s m n_samples seed =
     (case density m of
        None \<Rightarrow> (Inl DensityNotFactorable, s)
      | Some d \<Rightarrow>
          if length (pdf_factors d) \<noteq> length (pdf_param d) then (Inl DensityLengthMismatch, s)
          else
            (case set_seed np s seed of
               Inl e \<Rightarrow> (Inl e, s)
             | Inr s1 \<Rightarrow>
                 (case draw_samples np s1 m d n_samples of
                    (Inl e, s2) \<Rightarrow> (Inl e, s2)
                  | (Inr samples, s2) \<Rightarrow>
                      (case convert_marginals np d [0..<n_in m] (map (map Fin) samples) of
                         Inl e \<Rightarrow> (Inl e, s2)
                       | Inr samples' \<Rightarrow> (make_inputs m samples', s2)))))"

definition eval_monte_carlo ::
  "'s numpy \<Rightarrow> pyfloat evaluator \<Rightarrow> 's \<Rightarrow> model \<Rightarrow> nat \<Rightarrow> int option \<Rightarrow> bool
     \<Rightarrow> (error + pyfloat table) \<times> 's" where
  "eval_monte_carlo np eval_df s m n_samples seed app =
     (case sample_inputs np s m n_samples seed of
        (Inl e, s') \<Rightarrow> (Inl e, s')
      | (Inr df_inputs, s') \<Rightarrow> (eval_df m df_inputs app, s'))"

text \<open>
  The value the loop body writes into column \<open>ind\<close> for the entry \<open>u\<close>, when the
  parameters of that marginal are present.
\<close>

definition converted_value :: "'s numpy \<Rightarrow> density \<Rightarrow> nat \<Rightarrow> pyfloat \<Rightarrow> pyfloat" where
  "converted_value np d ind u =
     (if pdf_factors d ! ind = ''unif'' then
        (case ((pdf_param d ! ind) ''upper'', (pdf_param d ! ind) ''lower'') of
           (Some upper, Some lower) \<Rightarrow> affine np lower upper u
         | _ \<Rightarrow> u)
      else if pdf_factors d ! ind = ''norm'' then
        (case ((pdf_param d ! ind) ''loc'', (pdf_param d ! ind) ''scale'') of
           (Some loc, Some scale) \<Rightarrow> norm_ppf np u loc scale
         | _ \<Rightarrow> u)
      else u)"

section \<open>Calibration and constrained minimisation: \<^verbatim>\<open>eval_nls\<close> and \<^verbatim>\<open>eval_min\<close>\<close>

subsection \<open>Python sets of strings\<close>

text \<open>
  A Python \<^verbatim>\<open>set\<close> of strings is represented by the duplicate-free list of its
  elements.  Membership, union, intersection and difference do not depend on any order.
  Iterating a set (\<^verbatim>\<open>list(s)\<close>, or indexing a table with a set) visits the elements in
  the order of their hash slots, which for strings is chosen by the interpreter process:
  \<open>h\<close> below is that slot function, a parameter of every run.
\<close>

type_synonym pyset = "string list"

definition py_set :: "string list \<Rightarrow> pyset" where
  "py_set xs = remdups xs"

definition py_difference :: "pyset \<Rightarrow> pyset \<Rightarrow> pyset" where
  "py_difference a b = filter (\<lambda>x. x \<notin> set b) a"

definition py_intersection :: "pyset \<Rightarrow> pyset \<Rightarrow> pyset" where
  "py_intersection a b = filter (\<lambda>x. x \<in> set b) a"

definition py_union :: "pyset \<Rightarrow> pyset \<Rightarrow> pyset" where
  "py_union a b = a @ filter (\<lambda>x. x \<notin> set a) b"

definition py_add :: "pyset \<Rightarrow> string \<Rightarrow> pyset" where
  "py_add a x = (if x \<in> set a then a else a @ [x])"

definition py_list :: "(string \<Rightarrow> nat) \<Rightarrow> pyset \<Rightarrow> string list" where
  "py_list h a = sort_key h a"

subsection \<open>Tables\<close>

fun index_of :: "string \<Rightarrow> string list \<Rightarrow> nat option" where
  "index_of c [] = None"
| "index_of c (x # xs) = (if x = c then Some 0 else map_option Suc (index_of c xs))"

text \<open>\<^verbatim>\<open>df[names]\<close>: the named columns in the given order; KeyError on a missing name.\<close>

definition select :: "'a table \<Rightarrow> string list \<Rightarrow> error + 'a table" where
  "select df names =
     (case filter (\<lambda>c. c \<notin> set (columns df)) names of
        c # _ \<Rightarrow> Inl (KeyError c)
      | [] \<Rightarrow> Inr \<lparr>columns = names,
                   rows = map (\<lambda>r. map (\<lambda>c. r ! the (index_of c (columns df))) names) (rows df)\<rparr>)"

text \<open>Python \<^verbatim>\<open>dict(zip(keys, values))\<close>: a later value for a key replaces the earlier one.\<close>

fun dict_set :: "(string \<times> 'a) list \<Rightarrow> string \<Rightarrow> 'a \<Rightarrow> (string \<times> 'a) list" where
  "dict_set [] k v = [(k, v)]"
| "dict_set (e # d) k v = (if fst e = k then (k, v) # d else e # dict_set d k v)"

definition py_dict :: "(string \<times> 'a) list \<Rightarrow> (string \<times> 'a) list" where
  "py_dict kvs = foldl (\<lambda>d kv. dict_set d (fst kv) (snd kv)) [] kvs"

text \<open>
  Modelled from the spec: \<^verbatim>\<open>df_make\<close> (grama, not in src), the table-construction
  collaborator, "builds a table from named columns/values"; every value passed here is
  a scalar, so the table has one row.
\<close>

definition df_make :: "(string \<times> 'a) list \<Rightarrow> 'a table" where
  "df_make kvs = \<lparr>columns = map fst kvs, rows = [map snd kvs]\<rparr>"

text \<open>\<^verbatim>\<open>concat((a, b), axis=1)\<close> of two one-row tables.\<close>

definition concat_columns :: "'a table \<Rightarrow> 'a table \<Rightarrow> 'a table" where
  "concat_columns a b = \<lparr>columns = columns a @ columns b, rows = map2 (@) (rows a) (rows b)\<rparr>"

text \<open>
  \<^verbatim>\<open>concat((a, b), axis=0)\<close> where \<open>a\<close> is the empty \<^verbatim>\<open>DataFrame()\<close> or has the columns
  of \<open>b\<close>.
\<close>

definition concat_rows :: "'a table \<Rightarrow> 'a table \<Rightarrow> 'a table" where
  "concat_rows a b = (if columns a = [] \<and> rows a = [] then b
                      else \<lparr>columns = columns a, rows = rows a @ rows b\<rparr>)"

subsection \<open>External collaborators of the optimisers\<close>

datatype pyvalue = Scalar pyfloat | Series "pyfloat list"

type_synonym callable = "pyfloat list \<Rightarrow> error + pyvalue"

record opt_result =
  res_x :: "pyfloat list"
  res_status :: int
  res_fun :: pyfloat

record solver_call =
  sc_fun :: callable
  sc_x0 :: "pyfloat list"
  sc_method :: string
  sc_tol :: real
  sc_maxiter :: nat
  sc_bounds :: "(pyfloat \<times> pyfloat) list option"
  sc_constraints :: "(string \<times> callable) list"

text \<open>
  \<open>str_hash\<close> is the interpreter's slot order for strings in sets; \<open>eval_df\<close> the
  Evaluator; \<open>nominal\<close> the values of the Nominal evaluator's row; \<open>joint_mse\<close> numpy's \<^verbatim>\<open>((a - b) ** 2).mean()\<close> on two arrays
  (floating-point array arithmetic, not modelled further); \<open>minimize\<close> is
  \<^verbatim>\<open>scipy.optimize.minimize\<close>, which may raise (for instance what the callable raises);
  such an exception leaves the caller unchanged and is recorded as \<open>RaisedInSolver\<close>.
\<close>

record collaborators =
  str_hash :: "string \<Rightarrow> nat"
  eval_df :: "pyfloat evaluator"
  nominal :: "model \<Rightarrow> string \<Rightarrow> pyfloat"
  joint_mse :: "pyfloat list list \<Rightarrow> pyfloat list list \<Rightarrow> error + pyfloat"
  minimize :: "solver_call \<Rightarrow> error + opt_result"

text \<open>
  Modelled from the spec: \<^verbatim>\<open>eval_nominal(model, df_det="nom", skip=True)\<close> (grama, not in
  src), the Nominal evaluator, "produces a single canonical representative row (domain
  midpoints / marginal medians)": one row with a column for every model variable.
\<close>

definition eval_nominal :: "collaborators \<Rightarrow> model \<Rightarrow> pyfloat table" where
  "eval_nominal ext m = \<lparr>columns = var m, rows = [map (nominal ext m) (var m)]\<rparr>"

text \<open>
  Modelled from the spec: \<^verbatim>\<open>tran_outer\<close> (grama, not in src), the outer-join
  collaborator, "producing the broadcast row product of two tables": every row of the
  first table beside every row of the second, the columns of the first table first.
\<close>

definition tran_outer :: "'a table \<Rightarrow> 'a table \<Rightarrow> 'a table" where
  "tran_outer df df_outer =
     \<lparr>columns = columns df @ columns df_outer,
      rows = concat (map (\<lambda>r_outer. map (\<lambda>r. r @ r_outer) (rows df)) (rows df_outer))\<rparr>"

text \<open>
  Modelled from the spec: the Model attribute \<^verbatim>\<open>n_var_rand\<close> (grama's core, not in src),
  the number of random variables.
\<close>

definition n_var_rand :: "model \<Rightarrow> nat" where
  "n_var_rand m = length (var_rand m)"

subsection \<open>\<^verbatim>\<open>eval_nls\<close>: variable roles\<close>

text \<open>Lines 67 to 69: the effective \<^verbatim>\<open>out\<close>.\<close>

definition nls_out :: "model \<Rightarrow> string list option \<Rightarrow> string list" where
  "nls_out m out_arg = (case out_arg of None \<Rightarrow> out m | Some names \<Rightarrow> names)"

text \<open>Line 70.\<close>

definition nls_set_diff :: "model \<Rightarrow> pyfloat table \<Rightarrow> string list option \<Rightarrow> pyset" where
  "nls_set_diff m df_data out_arg =
     py_difference (py_set (nls_out m out_arg)) (py_set (columns df_data))"

text \<open>Lines 78 to 85: the loop adds every deterministic variable of width zero.\<close>

fun add_zero_width :: "domain \<Rightarrow> string list \<Rightarrow> pyset \<Rightarrow> pyset" where
  "add_zero_width dm [] var_fix = var_fix"
| "add_zero_width dm (v # vs) var_fix =
     add_zero_width dm vs (if get_width dm v = Fin 0 then py_add var_fix v else var_fix)"

definition nls_var_fix :: "model \<Rightarrow> string list option \<Rightarrow> pyset" where
  "nls_var_fix m var_fix_arg =
     add_zero_width (domain m) (var_det m)
       (case var_fix_arg of None \<Rightarrow> [] | Some names \<Rightarrow> py_set names)"

text \<open>Line 89.\<close>

definition nls_var_feat :: "model \<Rightarrow> pyfloat table \<Rightarrow> pyset" where
  "nls_var_feat m df_data = py_intersection (py_set (var m)) (py_set (columns df_data))"

text \<open>Line 93: the set of variables to fit.\<close>

definition nls_var_fit_set :: "model \<Rightarrow> pyfloat table \<Rightarrow> string list option \<Rightarrow> pyset" where
  "nls_var_fit_set m df_data var_fix_arg =
     py_difference (py_set (var m))
       (py_union (nls_var_fix m var_fix_arg) (nls_var_feat m df_data))"

text \<open>Lines 101, 102 and 105.\<close>

definition nls_var_fit_det ::
  "(string \<Rightarrow> nat) \<Rightarrow> model \<Rightarrow> pyfloat table \<Rightarrow> string list option \<Rightarrow> string list" where
  "nls_var_fit_det h m df_data var_fix_arg =
     py_list h (py_intersection (py_set (var_det m)) (nls_var_fit_set m df_data var_fix_arg))"

definition nls_var_fit_rand ::
  "(string \<Rightarrow> nat) \<Rightarrow> model \<Rightarrow> pyfloat table \<Rightarrow> string list option \<Rightarrow> string list" where
  "nls_var_fit_rand h m df_data var_fix_arg =
     py_list h (py_intersection (py_set (var_rand m)) (nls_var_fit_set m df_data var_fix_arg))"

definition nls_var_fit ::
  "(string \<Rightarrow> nat) \<Rightarrow> model \<Rightarrow> pyfloat table \<Rightarrow> string list option \<Rightarrow> string list" where
  "nls_var_fit h m df_data var_fix_arg =
     nls_var_fit_det h m df_data var_fix_arg @ nls_var_fit_rand h m df_data var_fix_arg"

subsection \<open>\<^verbatim>\<open>eval_nls\<close>: bounds\<close>

text \<open>Lines 108 to 111: the deterministic fit variables whose nominal value is not finite.\<close>

definition nls_var_prob :: "model \<Rightarrow> string list \<Rightarrow> string list" where
  "nls_var_prob m var_fit_det = filter (\<lambda>v. \<not> isfinite (get_nominal (domain m) v)) var_fit_det"

text \<open>
  Lines 118 to 121: the bounds of the random fit variables; \<^verbatim>\<open>model.density\<close> may be
  \<^verbatim>\<open>None\<close> and the variable may have no marginal.
\<close>

fun nls_rand_bounds :: "model \<Rightarrow> string list \<Rightarrow> error + (pyfloat \<times> pyfloat) list" where
  "nls_rand_bounds m [] = Inr []"
| "nls_rand_bounds m (v # vs) =
     (case density m of
        None \<Rightarrow> Inl AttributeError
      | Some d \<Rightarrow>
         (case marginals d v of
            None \<Rightarrow> Inl (KeyError v)
          | Some q \<Rightarrow>
             (case nls_rand_bounds m vs of
                Inl e \<Rightarrow> Inl e
              | Inr bs \<Rightarrow> Inr ((q 0, q 1) # bs))))"

definition nls_bounds ::
  "model \<Rightarrow> string list \<Rightarrow> string list \<Rightarrow> error + (pyfloat \<times> pyfloat) list" where
  "nls_bounds m var_fit_det var_fit_rand =
     (if nls_var_prob m var_fit_det \<noteq> [] then Inl (NonFiniteNominal (nls_var_prob m var_fit_det))
      else case nls_rand_bounds m var_fit_rand of
             Inl e \<Rightarrow> Inl e
           | Inr bs \<Rightarrow> Inr (map (get_bound (domain m)) var_fit_det @ bs))"

subsection \<open>\<^verbatim>\<open>eval_nls\<close>: the objective and the loop over initial guesses\<close>

text \<open>\<^verbatim>\<open>df.iloc[[0]]\<close>: the first row, as a table.\<close>

definition first_row :: "'a table \<Rightarrow> error + 'a table" where
  "first_row df = (case rows df of [] \<Rightarrow> Inl IndexError | r # _ \<Rightarrow> Inr (df\<lparr>rows := [r]\<rparr>))"

text \<open>
  Lines 140 to 143: the nominal values of \<^verbatim>\<open>var_fix\<close> beside the trial values \<open>x\<close> of
  \<^verbatim>\<open>var_fit\<close>.  \<^verbatim>\<open>var_fix\<close> is a set, so its columns come in iteration order.
\<close>

definition nls_fixed_row ::
  "collaborators \<Rightarrow> model \<Rightarrow> pyset \<Rightarrow> string list \<Rightarrow> pyfloat list \<Rightarrow> error + pyfloat table" where
  "nls_fixed_row ext m var_fix var_fit x =
     (case select (eval_nominal ext m) (py_list (str_hash ext) var_fix) of
        Inl e \<Rightarrow> Inl e
      | Inr nom_fix \<Rightarrow>
         (case first_row nom_fix of
            Inl e \<Rightarrow> Inl e
          | Inr r \<Rightarrow> Inr (concat_columns r (df_make (py_dict (zip var_fit x))))))"

text \<open>
  Lines 138 to 144: the table \<^verbatim>\<open>df_var\<close> handed to the Evaluator for a trial point
  \<open>x\<close>, the feature columns of the data beside the fixed row.
\<close>

definition nls_df_var ::
  "collaborators \<Rightarrow> model \<Rightarrow> pyfloat table \<Rightarrow> pyset \<Rightarrow> pyset \<Rightarrow> string list
     \<Rightarrow> pyfloat list \<Rightarrow> error + pyfloat table" where
  "nls_df_var ext m df_data var_fix var_feat var_fit x =
     (case select df_data (py_list (str_hash ext) var_feat) of
        Inl e \<Rightarrow> Inl e
      | Inr feat \<Rightarrow>
         (case nls_fixed_row ext m var_fix var_fit x of
            Inl e \<Rightarrow> Inl e
          | Inr fixed \<Rightarrow> Inr (tran_outer feat fixed)))"

text \<open>Lines 135 to 148.\<close>

definition nls_objective ::
  "collaborators \<Rightarrow> model \<Rightarrow> pyfloat table \<Rightarrow> string list \<Rightarrow> pyset \<Rightarrow> pyset \<Rightarrow> string list
     \<Rightarrow> callable" where
  "nls_objective ext m df_data outs var_fix var_feat var_fit x =
     (case nls_df_var ext m df_data var_fix var_feat var_fit x of
        Inl e \<Rightarrow> Inl e
      | Inr df_var \<Rightarrow>
     (case eval_df ext m df_var True of
        Inl e \<Rightarrow> Inl e
      | Inr df_res \<Rightarrow>
     (case select df_res outs of
        Inl e \<Rightarrow> Inl e
      | Inr predicted \<Rightarrow>
     (case select df_data outs of
        Inl e \<Rightarrow> Inl e
      | Inr observed \<Rightarrow>
     (case joint_mse ext (rows predicted) (rows observed) of
        Inl e \<Rightarrow> Inl e
      | Inr v \<Rightarrow> Inr (Scalar v))))))"

text \<open>
  Lines 165 to 170: the keyword arguments of \<^verbatim>\<open>df_make\<close>; Python raises TypeError when a
  keyword is given twice.
\<close>

definition nls_result_row ::
  "string list \<Rightarrow> opt_result \<Rightarrow> pyfloat list \<Rightarrow> error + pyfloat table" where
  "nls_result_row var_fit res x0 =
     (let fitted = py_dict (zip var_fit (res_x res));
          initial = py_dict (zip (map (\<lambda>s. s @ ''_0'') var_fit) x0)
      in if \<not> distinct (map fst fitted @ map fst initial @ [''status'', ''mse''])
         then Inl TypeError
         else Inr (df_make (fitted @ initial @
                     [(''status'', Fin (of_int (res_status res))), (''mse'', res_fun res)])))"

text \<open>
  Lines 132 to 173, one step per row \<open>x0\<close> of \<^verbatim>\<open>df_init\<close>.  The last argument counts the
  invocations of the solver.
\<close>

fun nls_iterate ::
  "collaborators \<Rightarrow> callable \<Rightarrow> (pyfloat \<times> pyfloat) list \<Rightarrow> string list \<Rightarrow> real \<Rightarrow> nat
     \<Rightarrow> pyfloat list list \<Rightarrow> pyfloat table \<Rightarrow> nat \<Rightarrow> (error + pyfloat table) \<times> nat" where
  "nls_iterate ext objective bounds var_fit tol maxiter [] df_res calls = (Inr df_res, calls)"
| "nls_iterate ext objective bounds var_fit tol maxiter (x0 # guesses) df_res calls =
     (case minimize ext \<lparr>sc_fun = objective, sc_x0 = x0, sc_method = ''SLSQP'', sc_tol = tol,
                         sc_maxiter = maxiter, sc_bounds = Some bounds, sc_constraints = []\<rparr> of
        Inl e \<Rightarrow> (Inl (RaisedInSolver e), Suc calls)
      | Inr res \<Rightarrow>
         (case nls_result_row var_fit res x0 of
            Inl e \<Rightarrow> (Inl e, Suc calls)
          | Inr row \<Rightarrow>
              nls_iterate ext objective bounds var_fit tol maxiter guesses
                (concat_rows df_res row) (Suc calls)))"

subsection \<open>\<^verbatim>\<open>eval_nls\<close>\<close>

text \<open>
  The result is paired with the number of solver invocations made.  \<^verbatim>\<open>df_data\<close>,
  \<^verbatim>\<open>out\<close> and \<^verbatim>\<open>var_fix\<close> default to \<^verbatim>\<open>None\<close>.
\<close>

definition eval_nls ::
  "collaborators \<Rightarrow> model \<Rightarrow> pyfloat table option \<Rightarrow> string list option \<Rightarrow> string list option
     \<Rightarrow> bool \<Rightarrow> real \<Rightarrow> nat \<Rightarrow> int \<Rightarrow> (error + pyfloat table) \<times> nat" where
  "eval_nls ext m df_data_arg out_arg var_fix_arg app tol maxiter nrestart =
     (case df_data_arg of
        None \<Rightarrow> (Inl AttributeError, 0)
      | Some df_data \<Rightarrow>
          if nls_set_diff m df_data out_arg \<noteq> []
          then (Inl (OutNotSubset (set (nls_set_diff m df_data out_arg))), 0)
          else if nls_var_fit_set m df_data var_fix_arg = [] then (Inl NoVarFit, 0)
          else
            (let var_fit_det = nls_var_fit_det (str_hash ext) m df_data var_fix_arg;
                 var_fit_rand = nls_var_fit_rand (str_hash ext) m df_data var_fix_arg;
                 var_fit = var_fit_det @ var_fit_rand
             in case nls_bounds m var_fit_det var_fit_rand of
                  Inl e \<Rightarrow> (Inl e, 0)
                | Inr bounds \<Rightarrow>
                   (case select (eval_nominal ext m) var_fit of
                      Inl e \<Rightarrow> (Inl e, 0)
                    | Inr df_init \<Rightarrow>
                        if 1 < nrestart then (Inl NotImplementedError, 0)
                        else
                          (case nls_iterate ext
                                  (nls_objective ext m df_data (nls_out m out_arg)
                                     (nls_var_fix m var_fix_arg) (nls_var_feat m df_data) var_fit)
                                  bounds var_fit tol maxiter (rows df_init)
                                  \<lparr>columns = [], rows = []\<rparr> 0 of
                             (Inl e, calls) \<Rightarrow> (Inl e, calls)
                           | (Inr df_res, calls) \<Rightarrow>
                               if app then (Inr df_res, calls)
                               else (select df_res var_fit, calls)))))"

subsection \<open>\<^verbatim>\<open>eval_min\<close>\<close>

text \<open>\<^verbatim>\<open>df[name]\<close> with a single name: the column as a series.\<close>

definition column :: "'a table \<Rightarrow> string \<Rightarrow> error + 'a list" where
  "column df c =
     (case index_of c (columns df) of
        None \<Rightarrow> Inl (KeyError c)
      | Some i \<Rightarrow> Inr (map (\<lambda>r. r ! i) (rows df)))"

text \<open>
  Lines 273 to 279.  \<^verbatim>\<open>DataFrame([x], columns=model.var)\<close> raises when \<open>x\<close> has not one
  value per variable.
\<close>

definition make_fun :: "collaborators \<Rightarrow> model \<Rightarrow> string \<Rightarrow> callable" where
  "make_fun ext m out_name x =
     (if length x \<noteq> length (var m) then Inl ShapeMismatch
      else case eval_df ext m \<lparr>columns = var m, rows = [x]\<rparr> True of
             Inl e \<Rightarrow> Inl e
           | Inr df_res \<Rightarrow>
              (case column df_res out_name of
                 Inl e \<Rightarrow> Inl e
               | Inr vals \<Rightarrow> Inr (Series vals)))"

text \<open>Lines 254 to 265: the names of a constraint list that are not model outputs.\<close>

definition out_diff :: "model \<Rightarrow> string list option \<Rightarrow> pyset" where
  "out_diff m names_arg =
     (case names_arg of
        None \<Rightarrow> []
      | Some names \<Rightarrow> py_difference (py_set names) (py_set (out m)))"

definition min_constraints ::
  "collaborators \<Rightarrow> model \<Rightarrow> string list option \<Rightarrow> string list option
     \<Rightarrow> (string \<times> callable) list" where
  "min_constraints ext m out_geq out_eq =
     (case out_geq of None \<Rightarrow> [] | Some names \<Rightarrow> map (\<lambda>name. (''ineq'', make_fun ext m name)) names)
     @ (case out_eq of None \<Rightarrow> [] | Some names \<Rightarrow> map (\<lambda>name. (''eq'', make_fun ext m name)) names)"

text \<open>
  The result is paired with the number of solver invocations made.  The start table
  \<^verbatim>\<open>df_start[model.var]\<close> is handed to the solver as its array of values.  The parameter
  \<^verbatim>\<open>nrestart\<close> is not read by the source.
\<close>

definition eval_min ::
  "collaborators \<Rightarrow> model \<Rightarrow> string option \<Rightarrow> string list option \<Rightarrow> string list option
     \<Rightarrow> string \<Rightarrow> real \<Rightarrow> int \<Rightarrow> nat \<Rightarrow> pyfloat table option \<Rightarrow> (error + pyfloat table) \<times> nat" where
  "eval_min ext m out_min out_geq out_eq method tol nrestart maxiter df_start_arg =
     (if 0 < n_var_rand m then (Inl HasRandomVariables, 0)
      else case out_min of
        None \<Rightarrow> (Inl MissingOutMin, 0)
      | Some objective_name \<Rightarrow>
          if objective_name \<notin> set (out m) then (Inl MissingOutMin, 0)
          else if out_diff m out_geq \<noteq> [] then (Inl (MissingOutGeq (set (out_diff m out_geq))), 0)
          else if out_diff m out_eq \<noteq> [] then (Inl (MissingOutEq (set (out_diff m out_eq))), 0)
          else
            (let df_start = (case df_start_arg of None \<Rightarrow> eval_nominal ext m | Some t \<Rightarrow> t)
             in case select df_start (var m) of
                  Inl e \<Rightarrow> (Inl e, 0)
                | Inr x0 \<Rightarrow>
                   (case minimize ext
                           \<lparr>sc_fun = make_fun ext m objective_name, sc_x0 = concat (rows x0),
                            sc_method = method, sc_tol = tol, sc_maxiter = maxiter,
                            sc_bounds = None,
                            sc_constraints = min_constraints ext m out_geq out_eq\<rparr> of
                      Inl e \<Rightarrow> (Inl (RaisedInSolver e), 1)
                    | Inr res \<Rightarrow> (Inr (df_make (py_dict (zip (var m) (res_x res)))), 1))))"

section \<open>Concrete inputs\<close>

text \<open>
  Stand-ins for the external collaborators and small models, used to run the
  definitions above on concrete inputs.
\<close>

definition np_stub :: "nat numpy" where
  "np_stub = \<lparr>
     np_random_seed = (\<lambda>sd. if 0 \<le> sd \<and> sd < 2 ^ 32 then Some (nat sd) else None),
     np_random_multivariate_normal = (\<lambda>s mean cov size. (replicate size mean, s + size)),
     np_random_random =
       (\<lambda>s n k. (replicate n (map (\<lambda>j. real ((s + j) mod 4) / 4) [0..<k]), s + n * k)),
     norm_cdf = (\<lambda>x. if x < 0 then 0 else if 1 < x then 1 else x),
     norm_ppf = (\<lambda>p loc scale.
        case p of Fin u \<Rightarrow> Fin (loc + scale * (u - 1 / 2)) | _ \<Rightarrow> NaN),
     fl = Fin \<rparr>"

definition dn_example :: density where
  "dn_example = \<lparr>
     pdf_factors = [''unif'', ''beta'', ''norm''],
     pdf_param = [[''lower'' \<mapsto> -1, ''upper'' \<mapsto> 1], [''a'' \<mapsto> 2, ''b'' \<mapsto> 3],
                  [''loc'' \<mapsto> 10, ''scale'' \<mapsto> 2]],
     pdf_corr = None,
     marginals = Map.empty \<rparr>"

definition dm_example :: domain where
  "dm_example = \<lparr>
     inputs = [''x'', ''y'', ''z''],
     get_width = (\<lambda>v. Fin 2),
     get_nominal = (\<lambda>v. Fin 0),
     get_bound = (\<lambda>v. (Fin (-1), Fin 1)) \<rparr>"

definition md_example :: model where
  "md_example = \<lparr>
     n_in = 3, var = [''x'', ''y'', ''z''], var_det = [], var_rand = [''x'', ''y'', ''z''],
     out = [''f''], domain = dm_example, density = Some dn_example \<rparr>"

definition dn_corr :: density where
  "dn_corr = \<lparr>
     pdf_factors = [''unif'', ''unif''],
     pdf_param = [[''lower'' \<mapsto> -1, ''upper'' \<mapsto> 1], [''lower'' \<mapsto> 0, ''upper'' \<mapsto> 2]],
     pdf_corr = Some [1 / 2],
     marginals = Map.empty \<rparr>"

definition md_corr :: model where
  "md_corr = \<lparr>
     n_in = 2, var = [''x'', ''y''], var_det = [], var_rand = [''x'', ''y''],
     out = [''f''], domain = dm_example\<lparr>inputs := [''x'', ''y'']\<rparr>, density = Some dn_corr \<rparr>"

text \<open>
  A model with two independent uniform marginals on \<open>[-1, 1]\<close> and \<open>[0, 2]\<close> whose
  Domain gives every variable the bounds \<open>[0, 1/2]\<close>.
\<close>

definition dn_unif :: density where
  "dn_unif = dn_corr\<lparr>pdf_corr := None\<rparr>"

definition md_unif :: model where
  "md_unif = \<lparr>
     n_in = 2, var = [''x'', ''y''], var_det = [], var_rand = [''x'', ''y''],
     out = [''f''],
     domain = dm_example\<lparr>inputs := [''x'', ''y''], get_bound := (\<lambda>v. (Fin 0, Fin (1 / 2)))\<rparr>,
     density = Some dn_unif \<rparr>"

text \<open>
  Rounding to the nearest double on the two binades that the example below visits: a
  double in \<open>[2, 4)\<close> is a multiple of \<^verbatim>\<open>2**-51\<close>, one in \<open>[1/16, 1/8)\<close> a multiple
  of \<^verbatim>\<open>2**-56\<close>.  The other values of the example (\<open>0\<close>, \<open>1\<close> and \<open>-3\<close>) are
  doubles.  The upper bound of \<open>md_tight\<close> is the double written \<^verbatim>\<open>0.1\<close>, and the
  generator of \<open>np_round\<close> draws \<open>u = 1\<close>.
\<close>

definition round_to_grid :: "nat \<Rightarrow> real \<Rightarrow> real" where
  "round_to_grid k x = real_of_int (round (x * 2 ^ k)) / 2 ^ k"

definition fl_double :: "real \<Rightarrow> real" where
  "fl_double x =
     (if 2 \<le> \<bar>x\<bar> \<and> \<bar>x\<bar> < 4 then round_to_grid 51 x
      else if 1 / 16 \<le> \<bar>x\<bar> \<and> \<bar>x\<bar> < 1 / 8 then round_to_grid 56 x
      else x)"

definition np_round :: "nat numpy" where
  "np_round = np_stub\<lparr>
     np_random_random := (\<lambda>s n k. (replicate n (replicate k 1), s + n * k)),
     fl := (\<lambda>x. Fin (fl_double x)) \<rparr>"

definition dn_tight :: density where
  "dn_tight = \<lparr>
     pdf_factors = [''unif''],
     pdf_param = [[''lower'' \<mapsto> - 3, ''upper'' \<mapsto> 3602879701896397 / 36028797018963968]],
     pdf_corr = None,
     marginals = Map.empty \<rparr>"

definition md_tight :: model where
  "md_tight = \<lparr>
     n_in = 1, var = [''x''], var_det = [], var_rand = [''x''], out = [''f''],
     domain = \<lparr>inputs = [''x''], get_width = (\<lambda>v. Fin (31 / 10)), get_nominal = (\<lambda>v. Fin 0),
                get_bound = (\<lambda>v. (Fin (- 3), Fin (3602879701896397 / 36028797018963968)))\<rparr>,
     density = Some dn_tight \<rparr>"

text \<open>
  A calibration model: \<open>a\<close> and \<open>b\<close> are free deterministic variables, \<open>c\<close> has the
  degenerate bounds \<open>[3, 3]\<close>, \<open>t\<close> is observed in the data, \<open>e\<close> is random.
\<close>

definition dm_nls :: domain where
  "dm_nls = \<lparr>
     inputs = [''a'', ''b'', ''c'', ''t''],
     get_width = (\<lambda>v. if v = ''c'' then Fin 0 else if v = ''t'' then PosInf else Fin 2),
     get_nominal = (\<lambda>v. if v = ''c'' then Fin 3 else Fin 0),
     get_bound = (\<lambda>v. if v = ''c'' then (Fin 3, Fin 3)
                       else if v = ''t'' then (Fin 0, PosInf) else (Fin (-1), Fin 1)) \<rparr>"

definition dn_nls :: density where
  "dn_nls = \<lparr>
     pdf_factors = [''norm''],
     pdf_param = [[''loc'' \<mapsto> 0, ''scale'' \<mapsto> 1]],
     pdf_corr = None,
     marginals = [''e'' \<mapsto> (\<lambda>p. if p \<le> 0 then NegInf else if 1 \<le> p then PosInf else Fin 0)] \<rparr>"

definition md_nls :: model where
  "md_nls = \<lparr>
     n_in = 5, var = [''a'', ''b'', ''c'', ''t'', ''e''], var_det = [''a'', ''b'', ''c'', ''t''],
     var_rand = [''e''], out = [''y''], domain = dm_nls, density = Some dn_nls \<rparr>"

definition df_data_example :: "pyfloat table" where
  "df_data_example = \<lparr>columns = [''t'', ''y''], rows = [[Fin 0, Fin 1], [Fin 1, Fin 2]]\<rparr>"

text \<open>Observed data that also has a column for the degenerate variable \<open>c\<close>.\<close>

definition df_data_c :: "pyfloat table" where
  "df_data_c = \<lparr>columns = [''t'', ''c'', ''y''],
                 rows = [[Fin 0, Fin 5, Fin 1], [Fin 1, Fin 5, Fin 2]]\<rparr>"

text \<open>
  An Evaluator that answers like the stand-in on the tables whose column \<open>c\<close> holds
  \<open>3\<close> in both rows, and raises on every other table.
\<close>

definition eval_df_nominal_c :: "pyfloat evaluator" where
  "eval_df_nominal_c m df app =
     (if column df ''c'' = Inr [Fin 3, Fin 3]
      then Inr \<lparr>columns = columns df @ out m,
                 rows = map (\<lambda>r. r @ map (\<lambda>_. Fin 0) (out m)) (rows df)\<rparr>
      else Inl TypeError)"

text \<open>A deterministic model for the minimiser: outputs \<open>c\<close>, \<open>g1\<close> and \<open>g2\<close>.\<close>

definition md_min :: model where
  "md_min = \<lparr>
     n_in = 2, var = [''x'', ''y''], var_det = [''x'', ''y''], var_rand = [],
     out = [''c'', ''g1'', ''g2''], domain = dm_example\<lparr>inputs := [''x'', ''y'']\<rparr>,
     density = None \<rparr>"

text \<open>
  The stand-in Evaluator appends one zero column per model output; the stand-in solver
  evaluates its callable once at the starting point and returns that point.
\<close>

definition ext_stub :: "(string \<Rightarrow> nat) \<Rightarrow> collaborators" where
  "ext_stub h = \<lparr>
     str_hash = h,
     eval_df = (\<lambda>m df app.
        Inr \<lparr>columns = columns df @ out m,
             rows = map (\<lambda>r. r @ map (\<lambda>_. Fin 0) (out m)) (rows df)\<rparr>),
     nominal = (\<lambda>m v. if v \<in> set (var_det m) then get_nominal (domain m) v else Fin 0),
     joint_mse = (\<lambda>a b. if length a = length b then Inr (Fin 1) else Inl ShapeMismatch),
     minimize = (\<lambda>call.
        case sc_fun call (sc_x0 call) of
          Inl e \<Rightarrow> Inl e
        | Inr v \<Rightarrow> Inr \<lparr>res_x = sc_x0 call, res_status = 0,
                       res_fun = (case v of Scalar f \<Rightarrow> f | Series fs \<Rightarrow> hd fs)\<rparr>) \<rparr>"

definition hash_a_first :: "string \<Rightarrow> nat" where
  "hash_a_first s = (if s = ''a'' then 0 else 1)"

definition hash_a_last :: "string \<Rightarrow> nat" where
  "hash_a_last s = (if s = ''a'' then 1 else 0)"

section \<open>Properties of the correlated sampler\<close>

lemmas sampler_example_defs =
  np_stub_def md_example_def dn_example_def dm_example_def md_corr_def dn_corr_def
  md_unif_def dn_unif_def md_tight_def dn_tight_def np_round_def

lemmas sampler_defs =
  sample_inputs_def set_seed_def draw_samples_def convert_column_def update_column_def
  make_inputs_def affine_def gaussian_mean_def np_ones_def build_Sigma_def assign_at_def
  broadcast_to_def
  triu_indices_def tril_indices_def np_eye_def set_entry_def

lemma replicate_two: "replicate 2 x = [x, x]"
  by (simp add: numeral_2_eq_2)

subsection \<open>The loop over the marginals\<close>

lemma update_column_shape:
  "length (update_column ind f S) = length S"
  "k < length S \<Longrightarrow> length (update_column ind f S ! k) = length (S ! k)"
  by (simp_all add: update_column_def)

lemma update_column_entry:
  "k < length S \<Longrightarrow> i < length (S ! k) \<Longrightarrow>
   update_column ind f S ! k ! i = (if i = ind then f (S ! k ! i) else S ! k ! i)"
  by (simp add: update_column_def)

lemma update_column_cong:
  "(\<And>u. f u = g u) \<Longrightarrow> update_column ind f S = update_column ind g S"
  by (simp add: update_column_def)

lemma convert_column_eq:
  assumes "convert_column np d ind S = Inr S'"
  shows "S' = (if pdf_factors d ! ind = ''unif'' \<or> pdf_factors d ! ind = ''norm''
               then update_column ind (converted_value np d ind) S else S)"
proof (cases "pdf_factors d ! ind = ''unif''")
  case True
  with assms obtain upper lower where
    k: "(pdf_param d ! ind) ''upper'' = Some upper" "(pdf_param d ! ind) ''lower'' = Some lower"
    and S': "S' = update_column ind (affine np lower upper) S"
    by (auto simp: convert_column_def split: if_splits option.splits)
  have "update_column ind (affine np lower upper) S =
        update_column ind (converted_value np d ind) S"
    by (rule update_column_cong) (simp add: converted_value_def True k)
  with S' True show ?thesis by simp
next
  case False
  show ?thesis
  proof (cases "pdf_factors d ! ind = ''norm''")
    case True
    with False assms obtain loc scale where
      k: "(pdf_param d ! ind) ''loc'' = Some loc" "(pdf_param d ! ind) ''scale'' = Some scale"
      and S': "S' = update_column ind (\<lambda>u. norm_ppf np u loc scale) S"
      by (auto simp: convert_column_def split: if_splits option.splits)
    have "update_column ind (\<lambda>u. norm_ppf np u loc scale) S =
          update_column ind (converted_value np d ind) S"
      by (rule update_column_cong) (simp add: converted_value_def True k)
    with S' True show ?thesis by simp
  next
    case nn: False
    with False assms show ?thesis
      by (auto simp: convert_column_def split: if_splits)
  qed
qed

lemma convert_column_shape:
  assumes "convert_column np d ind S = Inr S'"
  shows "length S' = length S" and "k < length S \<Longrightarrow> length (S' ! k) = length (S ! k)"
  using convert_column_eq [OF assms] by (simp_all add: update_column_shape)

lemma convert_column_entry:
  assumes "convert_column np d ind S = Inr S'" "k < length S" "i < length (S ! k)"
  shows "S' ! k ! i = (if i = ind then converted_value np d ind (S ! k ! i) else S ! k ! i)"
  using convert_column_eq [OF assms(1)] assms(2,3)
  by (auto simp: update_column_entry converted_value_def)

lemma convert_marginals_entry:
  assumes "convert_marginals np d inds S = Inr S'" "distinct inds" "k < length S" "i < length (S ! k)"
  shows "length S' = length S \<and> length (S' ! k) = length (S ! k) \<and>
         S' ! k ! i = (if i \<in> set inds then converted_value np d i (S ! k ! i) else S ! k ! i)"
  using assms
proof (induction inds arbitrary: S)
  case Nil
  then show ?case by simp
next
  case (Cons ind inds)
  from Cons.prems(1) obtain S1 where c: "convert_column np d ind S = Inr S1"
    and r: "convert_marginals np d inds S1 = Inr S'"
    by (auto split: sum.splits)
  have sh: "length S1 = length S" "length (S1 ! k) = length (S ! k)"
    using convert_column_shape [OF c] Cons.prems(3) by simp_all
  have e: "S1 ! k ! i = (if i = ind then converted_value np d ind (S ! k ! i) else S ! k ! i)"
    using convert_column_entry [OF c Cons.prems(3,4)] .
  have "length S' = length S1 \<and> length (S' ! k) = length (S1 ! k) \<and>
         S' ! k ! i = (if i \<in> set inds then converted_value np d i (S1 ! k ! i) else S1 ! k ! i)"
    using Cons.IH [OF r] Cons.prems(2,3,4) sh by simp
  then show ?case using sh e Cons.prems(2) by auto
qed

lemma convert_marginals_keys:
  assumes "convert_marginals np d inds S = Inr S'" "i \<in> set inds"
  shows "i < length (pdf_factors d) \<and>
     (pdf_factors d ! i = ''unif'' \<longrightarrow> (\<exists>lower upper. (pdf_param d ! i) ''lower'' = Some lower \<and> (pdf_param d ! i) ''upper'' = Some upper)) \<and>
     (pdf_factors d ! i = ''norm'' \<longrightarrow> (\<exists>loc scale. (pdf_param d ! i) ''loc'' = Some loc \<and> (pdf_param d ! i) ''scale'' = Some scale))"
  using assms
proof (induction inds arbitrary: S)
  case Nil
  then show ?case by simp
next
  case (Cons ind inds)
  from Cons.prems(1) obtain S1 where c: "convert_column np d ind S = Inr S1"
    and r: "convert_marginals np d inds S1 = Inr S'"
    by (auto split: sum.splits)
  show ?case
  proof (cases "i = ind")
    case True
    then show ?thesis using c
      by (auto simp: convert_column_def split: if_splits option.splits)
  next
    case False
    then show ?thesis using Cons.IH [OF r] Cons.prems(2) by simp
  qed
qed

lemma sample_inputs_Inr:
  assumes "sample_inputs np s m n seed = (Inr df, s')"
  obtains d s1 U where "density m = Some d" "set_seed np s seed = Inr s1"
    "draw_samples np s1 m d n = (Inr U, s')"
    "convert_marginals np d [0..<n_in m] (map (map Fin) U) = Inr (rows df)"
    "columns df = inputs (domain m)"
  using assms
  by (auto simp: sample_inputs_def make_inputs_def split: option.splits if_splits sum.splits prod.splits)

subsection \<open>The correlation matrix\<close>

text \<open>
  Both assignments write off the diagonal only, so the diagonal of the identity
  survives; and up to three variables the two enumerations of the triangles are
  transposes of each other.
\<close>

lemma set_entry_diag:
  assumes "fst (fst e) \<noteq> snd (fst e)"
  shows "length (set_entry M e) = length M \<and> (\<forall>a<length M. set_entry M e ! a ! a = M ! a ! a)"
proof -
  obtain i j v where e: "e = ((i, j), v)" by (metis prod.collapse)
  with assms have ij: "i \<noteq> j" by simp
  have "M[i := (M ! i)[j := v]] ! a ! a = M ! a ! a" if "a < length M" for a
  proof (cases "a = i")
    case True
    with that ij show ?thesis by simp
  next
    case False
    then show ?thesis by simp
  qed
  then show ?thesis by (simp add: e set_entry_def)
qed

lemma foldl_set_entry_diag:
  assumes "\<forall>e\<in>set es. fst (fst e) \<noteq> snd (fst e)"
  shows "length (foldl set_entry M es) = length M \<and>
         (\<forall>a<length M. foldl set_entry M es ! a ! a = M ! a ! a)"
  using assms
proof (induction es arbitrary: M)
  case Nil
  then show ?case by simp
next
  case (Cons e es)
  have e: "length (set_entry M e) = length M \<and> (\<forall>a<length M. set_entry M e ! a ! a = M ! a ! a)"
    by (rule set_entry_diag) (use Cons.prems in simp)
  have "length (foldl set_entry (set_entry M e) es) = length (set_entry M e) \<and>
         (\<forall>a<length (set_entry M e). foldl set_entry (set_entry M e) es ! a ! a = set_entry M e ! a ! a)"
    by (rule Cons.IH) (use Cons.prems in simp)
  with e show ?case by simp
qed

lemma assign_at_diag:
  assumes "assign_at M idx vals = Inr M'" "\<forall>p\<in>set idx. fst p \<noteq> snd p"
  shows "length M' = length M \<and> (\<forall>a<length M. M' ! a ! a = M ! a ! a)"
proof -
  from assms(1) obtain vs where M': "M' = foldl set_entry M (zip idx vs)"
    by (auto simp: assign_at_def split: sum.splits)
  have "\<forall>e\<in>set (zip idx vs). fst (fst e) \<noteq> snd (fst e)"
  proof
    fix e assume "e \<in> set (zip idx vs)"
    then have "(fst e, snd e) \<in> set (zip idx vs)" by simp
    then have "fst e \<in> set idx" by (rule set_zip_leftD)
    with assms(2) show "fst (fst e) \<noteq> snd (fst e)" by blast
  qed
  from foldl_set_entry_diag [OF this] M' show ?thesis by simp
qed

lemma triu_off_diagonal: "\<forall>p\<in>set (triu_indices n 1). fst p \<noteq> snd p"
  by (auto simp: triu_indices_def)

lemma tril_off_diagonal: "\<forall>p\<in>set (tril_indices n (- 1)). fst p \<noteq> snd p"
  by (auto simp: tril_indices_def)

lemma build_Sigma_unit_diagonal:
  assumes "build_Sigma n corr = Inr S"
  shows "unit_diagonal n S"
proof -
  from assms obtain S1 where
    a1: "assign_at (np_eye n) (triu_indices n 1) corr = Inr S1"
    and a2: "assign_at S1 (tril_indices n (- 1)) corr = Inr S"
    by (auto simp: build_Sigma_def split: sum.splits)
  have eye: "length (np_eye n) = n" "\<forall>a<n. np_eye n ! a ! a = 1"
    by (simp_all add: np_eye_def)
  from assign_at_diag [OF a1 triu_off_diagonal] eye
  have s1: "length S1 = n" "\<forall>a<n. S1 ! a ! a = 1" by simp_all
  from assign_at_diag [OF a2 tril_off_diagonal] s1
  have "\<forall>a<n. S ! a ! a = 1" by simp
  then show ?thesis by (simp add: unit_diagonal_def list_all_iff)
qed

lemma build_Sigma_symmetric_upto_3:
  assumes "build_Sigma n corr = Inr S" "n \<le> 3"
  shows "symmetric n S"
proof -
  from assms(2) consider "n = 0" | "n = 1" | "n = 2" | "n = 3" by linarith
  then show ?thesis
  proof cases
    case 1
    then show ?thesis by (simp add: symmetric_def)
  next
    case 2
    with assms(1) show ?thesis
      by (auto simp: symmetric_def build_Sigma_def assign_at_def broadcast_to_def triu_indices_def
        tril_indices_def np_eye_def set_entry_def split: if_splits)
  next
    case 3
    with assms(1) show ?thesis
      by (auto simp: symmetric_def build_Sigma_def assign_at_def broadcast_to_def triu_indices_def
        tril_indices_def np_eye_def set_entry_def upt_rec length_Suc_conv split: if_splits)
  next
    case 4
    with assms(1) show ?thesis
      by (auto simp: symmetric_def build_Sigma_def assign_at_def broadcast_to_def triu_indices_def
        tril_indices_def np_eye_def set_entry_def upt_rec length_Suc_conv numeral_3_eq_3
        split: if_splits)
  qed
qed

text \<open>
  C1. Claim: for every \<^verbatim>\<open>n_in\<close> and every vector of off-diagonal entries, the matrix
  \<open>Sigma\<close> built before drawing is symmetric with unit diagonal.  The code writes the
  vector into the upper triangle in row-major order and the same vector into the lower
  triangle in row-major order; the two enumerations are not transposes of each other
  from \<open>n_in = 4\<close> on.  For \<open>n_in = 4\<close> and the entries \<open>0.1, \<dots>, 0.6\<close> the matrix built
  has \<open>Sigma[0][3] = 0.3\<close> but \<open>Sigma[3][0] = 0.4\<close>, and \<open>Sigma[1][2] = 0.4\<close> but
  \<open>Sigma[2][1] = 0.3\<close>: its diagonal is one, and it is not symmetric.
\<close>

theorem Sigma_asymmetric_example:
  "build_Sigma 4 [1 / 10, 2 / 10, 3 / 10, 4 / 10, 5 / 10, 6 / 10] =
     Inr [[1, 1 / 10, 2 / 10, 3 / 10],
          [1 / 10, 1, 4 / 10, 5 / 10],
          [2 / 10, 3 / 10, 1, 6 / 10],
          [4 / 10, 5 / 10, 6 / 10, 1]] \<and>
   unit_diagonal 4 [[1, 1 / 10, 2 / 10, 3 / 10],
          [1 / 10, 1, 4 / 10, 5 / 10],
          [2 / 10, 3 / 10, 1, 6 / 10],
          [4 / 10, 5 / 10, 6 / 10, 1]] \<and>
   \<not> symmetric 4 [[1, 1 / 10, 2 / 10, 3 / 10],
          [1 / 10, 1, 4 / 10, 5 / 10],
          [2 / 10, 3 / 10, 1, 6 / 10],
          [4 / 10, 5 / 10, 6 / 10, 1]]"
  by (simp add: build_Sigma_def assign_at_def broadcast_to_def triu_indices_def
      tril_indices_def np_eye_def set_entry_def upt_rec symmetric_def unit_diagonal_def)

subsection \<open>The mean of the latent normal draw\<close>

text \<open>
  C2. Claim: the latent correlated normal vectors are drawn with zero mean vector.  For
  the two-variable model \<open>md_corr\<close> with correlation \<open>0.5\<close>, the mean vector handed to
  the draw is \<open>[1, 1]\<close>, whatever the generator, its state and the sample count: the
  code passes \<^verbatim>\<open>np.ones(model.n_in)\<close>.
\<close>

theorem gaussian_mean_is_ones:
  "gaussian_mean md_corr = [1, 1] \<and>
   draw_samples np s md_corr dn_corr n_samples =
     (case np_random_multivariate_normal np s [1, 1] [[1, 1 / 2], [1 / 2, 1]] n_samples of
        (gaussian_samples, s') \<Rightarrow> (Inr (map (map (norm_cdf np)) gaussian_samples), s'))"
  by (simp add: gaussian_mean_def np_ones_def md_corr_def dn_corr_def draw_samples_def
      build_Sigma_def assign_at_def broadcast_to_def triu_indices_def
      tril_indices_def np_eye_def set_entry_def upt_rec replicate_two)

subsection \<open>Inversion of the marginals\<close>




subsection \<open>Reproducibility under a seed\<close>

text \<open>
  C9. Two calls with the same model, the same seed (not \<^verbatim>\<open>None\<close>) and the same sample
  count return the same table (or fail alike), whatever the state of the shared
  random-number generator before each call.  The Evaluator is a function, hence
  deterministic.
\<close>

theorem seeded_runs_agree:
  "fst (eval_monte_carlo np evaluator s m n_samples (Some sd) app) =
   fst (eval_monte_carlo np evaluator s' m n_samples (Some sd) app)"
  by (auto simp: eval_monte_carlo_def sample_inputs_def set_seed_def
      split: option.splits sum.splits prod.splits)

theorem seeded_runs_agree_witness:
  "fst (eval_monte_carlo np_stub (\<lambda>m df app. Inr df) 0 md_example 2 (Some 7) True) =
   fst (eval_monte_carlo np_stub (\<lambda>m df app. Inr df) 5 md_example 2 (Some 7) True) \<and>
   fst (eval_monte_carlo np_stub (\<lambda>m df app. Inr df) 5 md_example 2 (Some 7) True) =
     Inr \<lparr>columns = [''x'', ''y'', ''z''],
          rows = [[Fin (1 / 2), Fin 0, Fin (19 / 2)], [Fin (1 / 2), Fin 0, Fin (19 / 2)]]\<rparr>"
  using seeded_runs_agree [of np_stub "\<lambda>m df app. Inr df" 0 md_example 2 7 True 5]
  by (simp add: eval_monte_carlo_def sampler_example_defs sampler_defs upt_rec replicate_two)

subsection \<open>Marginals of an unknown family\<close>

text \<open>
  C10. If the family name of column \<open>i\<close> is neither \<^verbatim>\<open>"unif"\<close> nor \<^verbatim>\<open>"norm"\<close>, the loop
  body for that column raises nothing and changes nothing, and in a run that returns
  the input table \<open>df\<close> from the drawn array \<open>U\<close>, column \<open>i\<close> of \<open>df\<close> holds the drawn
  values of \<open>U\<close> as they are: that table is what the Evaluator receives.
\<close>

theorem unknown_family_unchanged:
  assumes run: "sample_inputs np s m n_samples seed = (Inr df, s')"
    and d: "density m = Some d"
    and seeded: "set_seed np s seed = Inr s1"
    and draw: "draw_samples np s1 m d n_samples = (Inr U, s2)"
    and k: "k < length U" and i: "i < n_in m" "i < length (U ! k)"
    and fam: "pdf_factors d ! i \<noteq> ''unif''" "pdf_factors d ! i \<noteq> ''norm''"
  shows "(\<forall>S. convert_column np d i S = Inr S) \<and> rows df ! k ! i = Fin (U ! k ! i)"
proof -
  from run obtain d' s1' U' where
    "density m = Some d'" "set_seed np s seed = Inr s1'"
    "draw_samples np s1' m d' n_samples = (Inr U', s')"
    and cm': "convert_marginals np d' [0..<n_in m] (map (map Fin) U') = Inr (rows df)"
    by (rule sample_inputs_Inr)
  with d seeded draw
  have cm: "convert_marginals np d [0..<n_in m] (map (map Fin) U) = Inr (rows df)"
    by simp
  have mem: "i \<in> set [0..<n_in m]" using i by simp
  have "rows df ! k ! i = converted_value np d i (Fin (U ! k ! i))"
    using convert_marginals_entry [OF cm, of k i] k i(2) mem by simp
  then have "rows df ! k ! i = Fin (U ! k ! i)"
    using fam by (simp add: converted_value_def)
  moreover have "i < length (pdf_factors d)"
    using convert_marginals_keys [OF cm mem] by simp
  then have "\<forall>S. convert_column np d i S = Inr S"
    using fam by (simp add: convert_column_def)
  ultimately show ?thesis by simp
qed

theorem unknown_family_unchanged_witness:
  "sample_inputs np_stub 0 md_example 2 (Some 7) =
     (Inr \<lparr>columns = [''x'', ''y'', ''z''],
           rows = [[Fin (1 / 2), Fin 0, Fin (19 / 2)], [Fin (1 / 2), Fin 0, Fin (19 / 2)]]\<rparr>, 13) \<and>
   density md_example = Some dn_example \<and>
   set_seed np_stub 0 (Some 7) = Inr 7 \<and>
   draw_samples np_stub 7 md_example dn_example 2 =
     (Inr [[3 / 4, 0, 1 / 4], [3 / 4, 0, 1 / 4]], 13) \<and>
   pdf_factors dn_example ! 1 = ''beta'' \<and>
   convert_column np_stub dn_example 1 [[Fin (3 / 4), Fin 0, Fin (1 / 4)]] =
     Inr [[Fin (3 / 4), Fin 0, Fin (1 / 4)]] \<and>
   [[Fin (1 / 2), Fin 0, Fin (19 / 2)], [Fin (1 / 2), Fin 0, Fin (19 / 2)]] ! 0 ! 1
     = Fin ([[3 / 4, 0, 1 / 4], [3 / 4, 0, 1 / 4]] ! 0 ! 1)"
proof -
  let ?df = "\<lparr>columns = [''x'', ''y'', ''z''],
              rows = [[Fin (1 / 2), Fin 0, Fin (19 / 2)], [Fin (1 / 2), Fin 0, Fin (19 / 2)]]\<rparr>"
  let ?U = "[[3 / 4, 0, 1 / 4], [3 / 4, 0, 1 / 4 :: real]]"
  have run: "sample_inputs np_stub 0 md_example 2 (Some 7) = (Inr ?df, 13)"
    by (simp add: sampler_example_defs sampler_defs upt_rec replicate_two)
  have d: "density md_example = Some dn_example"
    by (simp add: md_example_def)
  have seeded: "set_seed np_stub 0 (Some 7) = Inr 7"
    by (simp add: set_seed_def np_stub_def)
  have draw: "draw_samples np_stub 7 md_example dn_example 2 = (Inr ?U, 13)"
    by (simp add: sampler_example_defs sampler_defs upt_rec replicate_two)
  have k: "0 < length ?U" by simp
  have i: "1 < n_in md_example" "1 < length (?U ! 0)" by (simp_all add: md_example_def)
  have fam: "pdf_factors dn_example ! 1 \<noteq> ''unif''" "pdf_factors dn_example ! 1 \<noteq> ''norm''"
    by (simp_all add: dn_example_def)
  from unknown_family_unchanged [OF run d seeded draw k i fam]
  show ?thesis
    using run d seeded draw by (simp add: dn_example_def)
qed

section \<open>Properties of the calibrator and of the minimiser\<close>

lemmas opt_example_defs =
  ext_stub_def md_nls_def dm_nls_def dn_nls_def df_data_example_def md_min_def dm_example_def
  hash_a_first_def hash_a_last_def df_data_c_def eval_df_nominal_c_def

lemmas opt_defs =
  eval_nls_def nls_set_diff_def nls_out_def nls_var_fit_set_def nls_var_fix_def nls_var_feat_def
  nls_var_fit_det_def nls_var_fit_rand_def nls_var_fit_def nls_bounds_def nls_var_prob_def
  nls_objective_def nls_df_var_def tran_outer_def nls_fixed_row_def nls_result_row_def
  eval_nominal_def
  py_set_def py_difference_def py_intersection_def py_union_def py_add_def py_list_def py_dict_def
  select_def first_row_def concat_columns_def concat_rows_def df_make_def column_def
  eval_min_def n_var_rand_def out_diff_def make_fun_def min_constraints_def

subsection \<open>Sets, tables and bounds\<close>

lemma set_py_set [simp]: "set (py_set xs) = set xs"
  by (simp add: py_set_def)

lemma set_py_difference [simp]: "set (py_difference a b) = set a - set b"
  by (auto simp: py_difference_def)

lemma set_py_intersection [simp]: "set (py_intersection a b) = set a \<inter> set b"
  by (auto simp: py_intersection_def)

lemma set_py_union [simp]: "set (py_union a b) = set a \<union> set b"
  by (auto simp: py_union_def)

lemma set_py_add [simp]: "set (py_add a x) = insert x (set a)"
  by (auto simp: py_add_def)

lemma set_py_list [simp]: "set (py_list h a) = set a"
  by (simp add: py_list_def)

lemma set_add_zero_width:
  "set (add_zero_width dm vs S) = set S \<union> {v \<in> set vs. get_width dm v = Fin 0}"
  by (induction vs arbitrary: S) auto

lemma set_nls_var_fix:
  "set (nls_var_fix m vf) =
     (case vf of None \<Rightarrow> {} | Some names \<Rightarrow> set names)
       \<union> {v \<in> set (var_det m). get_width (domain m) v = Fin 0}"
  by (simp add: nls_var_fix_def set_add_zero_width split: option.splits)

lemma set_nls_var_fit_set:
  "set (nls_var_fit_set m df vf) =
     set (var m) - (set (nls_var_fix m vf) \<union> (set (var m) \<inter> set (columns df)))"
  by (simp add: nls_var_fit_set_def nls_var_feat_def)

lemma set_nls_var_fit_det:
  "set (nls_var_fit_det h m df vf) = set (var_det m) \<inter> set (nls_var_fit_set m df vf)"
  by (simp add: nls_var_fit_det_def)

lemma set_nls_var_fit_rand:
  "set (nls_var_fit_rand h m df vf) = set (var_rand m) \<inter> set (nls_var_fit_set m df vf)"
  by (simp add: nls_var_fit_rand_def)

lemma nls_set_diff_empty:
  "(nls_set_diff m df out_arg = []) = (set (nls_out m out_arg) \<subseteq> set (columns df))"
proof -
  have "(nls_set_diff m df out_arg = []) = (set (nls_set_diff m df out_arg) = {})"
    by simp
  also have "\<dots> = (set (nls_out m out_arg) \<subseteq> set (columns df))"
    by (auto simp: nls_set_diff_def)
  finally show ?thesis .
qed

lemma set_nls_set_diff:
  "set (nls_set_diff m df out_arg) = set (nls_out m out_arg) - set (columns df)"
  by (simp add: nls_set_diff_def)

lemma select_columns: "select df names = Inr t \<Longrightarrow> columns t = names"
  by (auto simp: select_def split: list.splits)

lemma select_Inl: "select df names = Inl e \<Longrightarrow> \<exists>c. e = KeyError c"
  by (auto simp: select_def split: list.splits)

lemma select_Inr_iff: "(\<exists>t. select df names = Inr t) = (set names \<subseteq> set (columns df))"
proof -
  have "(filter (\<lambda>c. c \<notin> set (columns df)) names = []) = (set names \<subseteq> set (columns df))"
    by (auto simp: filter_empty_conv)
  moreover have "(\<exists>t. select df names = Inr t) = (filter (\<lambda>c. c \<notin> set (columns df)) names = [])"
    by (simp add: select_def split: list.splits)
  ultimately show ?thesis by simp
qed

lemma nls_rand_bounds_Inl:
  "nls_rand_bounds m vs = Inl e \<Longrightarrow> e = AttributeError \<or> (\<exists>c. e = KeyError c)"
  by (induction vs arbitrary: e) (auto split: option.splits sum.splits)

lemma nls_rand_bounds_Inr_iff:
  "(\<exists>bs. nls_rand_bounds m vs = Inr bs) =
     (\<forall>v\<in>set vs. \<exists>d q. density m = Some d \<and> marginals d v = Some q)"
  by (induction vs) (auto split: option.splits sum.splits)

lemma nls_bounds_Inl:
  "nls_bounds m ds rs = Inl e \<Longrightarrow>
     (\<exists>vs. e = NonFiniteNominal vs) \<or> e = AttributeError \<or> (\<exists>c. e = KeyError c)"
  by (auto simp: nls_bounds_def split: if_splits sum.splits dest: nls_rand_bounds_Inl)

lemma nls_bounds_Inr_iff:
  "(\<exists>bs. nls_bounds m ds rs = Inr bs) =
     ((\<forall>v\<in>set ds. isfinite (get_nominal (domain m) v)) \<and>
      (\<forall>v\<in>set rs. \<exists>d q. density m = Some d \<and> marginals d v = Some q))"
proof -
  have "(nls_var_prob m ds = []) = (\<forall>v\<in>set ds. isfinite (get_nominal (domain m) v))"
    by (auto simp: nls_var_prob_def filter_empty_conv)
  moreover have "(\<exists>bs. nls_bounds m ds rs = Inr bs) =
     (nls_var_prob m ds = [] \<and> (\<exists>bs. nls_rand_bounds m rs = Inr bs))"
    by (auto simp: nls_bounds_def split: sum.splits)
  ultimately show ?thesis by (simp add: nls_rand_bounds_Inr_iff)
qed

lemma nls_iterate_Inl:
  "nls_iterate ext f bounds var_fit tol maxiter guesses df_res calls = (Inl e, n) \<Longrightarrow>
     e = TypeError \<or> (\<exists>e'. e = RaisedInSolver e')"
proof (induction guesses arbitrary: df_res calls)
  case Nil
  then show ?case by simp
next
  case (Cons x0 guesses)
  then show ?case
    by (auto simp: nls_result_row_def Let_def split: sum.splits if_splits)
qed

lemma insort_key_order_cong:
  "\<forall>y\<in>set ys. (f x \<le> f y) = (g x \<le> g y) \<Longrightarrow> insort_key f x ys = insort_key g x ys"
  by (induction ys) auto

lemma sort_key_order_cong:
  fixes f g :: "'a \<Rightarrow> nat"
  assumes "\<forall>x\<in>set xs. \<forall>y\<in>set xs. (f x \<le> f y) = (g x \<le> g y)"
  shows "sort_key f xs = sort_key g xs"
  using assms
proof (induction xs)
  case Nil
  then show ?case by simp
next
  case (Cons x xs)
  then have ih: "sort_key f xs = sort_key g xs" by simp
  have "insort_key f x (sort_key g xs) = insort_key g x (sort_key g xs)"
    by (rule insort_key_order_cong) (use Cons.prems in simp)
  with ih show ?case by simp
qed

lemma nls_var_fit_subset_var:
  "set (nls_var_fit_det h m df vf @ nls_var_fit_rand h m df vf) \<subseteq> set (var m)"
  by (auto simp: set_nls_var_fit_det set_nls_var_fit_rand set_nls_var_fit_set)

lemma select_nominal_var_fit:
  "\<exists>t. select (eval_nominal ext m) (nls_var_fit_det h m df vf @ nls_var_fit_rand h m df vf) = Inr t"
  unfolding select_Inr_iff using nls_var_fit_subset_var [of h m df vf]
  by (simp add: eval_nominal_def)

subsection \<open>The check of \<^verbatim>\<open>out\<close>\<close>

lemma eval_nls_out_fail:
  "nls_set_diff m df out_arg \<noteq> [] \<Longrightarrow>
   eval_nls ext m (Some df) out_arg vf app tol mi nr =
     (Inl (OutNotSubset (set (nls_set_diff m df out_arg))), 0)"
  by (simp add: eval_nls_def)

lemma eval_nls_out_ok:
  assumes "nls_set_diff m df out_arg = []"
  shows "fst (eval_nls ext m (Some df) out_arg vf app tol mi nr) \<noteq> Inl (OutNotSubset D)"
proof -
  obtain t where t: "select (eval_nominal ext m)
      (nls_var_fit_det (str_hash ext) m df vf @ nls_var_fit_rand (str_hash ext) m df vf) = Inr t"
    using select_nominal_var_fit by blast
  show ?thesis
    using assms t
    by (auto simp: eval_nls_def Let_def split: sum.splits prod.splits if_splits
        dest: nls_bounds_Inl select_Inl nls_iterate_Inl)
qed

text \<open>
  C6. With a data table given, \<^verbatim>\<open>eval_nls\<close> raises the error "out must be subset of
  df_data.columns" if and only if the effective \<^verbatim>\<open>out\<close> list (the caller's, or
  \<^verbatim>\<open>model.out\<close> when omitted) has a name that is not a column of the data; the error
  then carries exactly the set of those names, and the solver has not been invoked.
\<close>

theorem out_subset_check:
  "((\<exists>D. fst (eval_nls ext m (Some df) out_arg vf app tol mi nr) = Inl (OutNotSubset D))
      = (\<not> set (nls_out m out_arg) \<subseteq> set (columns df))) \<and>
   (\<not> set (nls_out m out_arg) \<subseteq> set (columns df) \<longrightarrow>
      eval_nls ext m (Some df) out_arg vf app tol mi nr =
        (Inl (OutNotSubset (set (nls_out m out_arg) - set (columns df))), 0))"
proof (cases "nls_set_diff m df out_arg = []")
  case True
  then show ?thesis
    using eval_nls_out_ok [OF True] by (simp add: nls_set_diff_empty)
next
  case False
  then show ?thesis
    using eval_nls_out_fail [OF False] by (simp add: nls_set_diff_empty set_nls_set_diff)
qed

theorem out_subset_check_witness:
  "\<not> set (nls_out md_nls (Some [''y'', ''w''])) \<subseteq> set (columns df_data_example) \<and>
   eval_nls (ext_stub hash_a_first) md_nls (Some df_data_example) (Some [''y'', ''w'']) None
       False (1 / 1000) 25 1 = (Inl (OutNotSubset {''w''}), 0) \<and>
   set (nls_out md_nls None) \<subseteq> set (columns df_data_example) \<and>
   eval_nls (ext_stub hash_a_first) md_nls (Some df_data_example) None None
       False (1 / 1000) 25 1 =
     (Inr \<lparr>columns = [''a'', ''b'', ''e''], rows = [[Fin 0, Fin 0, Fin 0]]\<rparr>, 1)"
proof -
  have sub: "\<not> set (nls_out md_nls (Some [''y'', ''w''])) \<subseteq> set (columns df_data_example)"
    by (simp add: nls_out_def df_data_example_def)
  have d: "set (nls_out md_nls (Some [''y'', ''w''])) - set (columns df_data_example) = {''w''}"
    by (auto simp: nls_out_def df_data_example_def)
  have ok: "eval_nls (ext_stub hash_a_first) md_nls (Some df_data_example) None None
       False (1 / 1000) 25 1 =
     (Inr \<lparr>columns = [''a'', ''b'', ''e''], rows = [[Fin 0, Fin 0, Fin 0]]\<rparr>, 1)"
    by (simp add: opt_example_defs opt_defs)
  from out_subset_check [of "ext_stub hash_a_first" md_nls df_data_example "Some [''y'', ''w'']"
      None False "1 / 1000" 25 1] sub d ok
  show ?thesis by (simp add: nls_out_def md_nls_def df_data_example_def)
qed

subsection \<open>Restarts\<close>

text \<open>
  The guard of \<^verbatim>\<open>eval_nls\<close> (lines 127 and 128): a call with \<^verbatim>\<open>nrestart > 1\<close> never
  invokes the solver and always fails, with NotImplementedError exactly when the checks
  that come first pass.
\<close>

lemma eval_nls_nrestart_guard:
  assumes "1 < nrestart"
  shows "snd (eval_nls ext m df_arg out_arg vf app tol mi nrestart) = 0 \<and>
    (\<exists>e. fst (eval_nls ext m df_arg out_arg vf app tol mi nrestart) = Inl e) \<and>
    ((fst (eval_nls ext m df_arg out_arg vf app tol mi nrestart) = Inl NotImplementedError) =
     (\<exists>df. df_arg = Some df \<and> set (nls_out m out_arg) \<subseteq> set (columns df) \<and>
        nls_var_fit_set m df vf \<noteq> [] \<and>
        (\<forall>v\<in>set (nls_var_fit_det (str_hash ext) m df vf). isfinite (get_nominal (domain m) v)) \<and>
        (\<forall>v\<in>set (nls_var_fit_rand (str_hash ext) m df vf).
            \<exists>d q. density m = Some d \<and> marginals d v = Some q)))"
proof (cases df_arg)
  case None
  then show ?thesis by (simp add: eval_nls_def)
next
  case (Some df)
  let ?ds = "nls_var_fit_det (str_hash ext) m df vf"
  let ?rs = "nls_var_fit_rand (str_hash ext) m df vf"
  obtain t where t: "select (eval_nominal ext m) (?ds @ ?rs) = Inr t"
    using select_nominal_var_fit by blast
  show ?thesis
  proof (cases "\<exists>bs. nls_bounds m ?ds ?rs = Inr bs")
    case True
    then obtain bs where bs: "nls_bounds m ?ds ?rs = Inr bs" by blast
    have "eval_nls ext m df_arg out_arg vf app tol mi nrestart =
       (if nls_set_diff m df out_arg \<noteq> [] then (Inl (OutNotSubset (set (nls_set_diff m df out_arg))), 0)
        else if nls_var_fit_set m df vf = [] then (Inl NoVarFit, 0)
        else (Inl NotImplementedError, 0))"
      using Some bs t assms by (simp add: eval_nls_def Let_def)
    moreover note True [unfolded nls_bounds_Inr_iff]
    ultimately show ?thesis using Some
      by (auto simp: nls_set_diff_empty)
  next
    case False
    then obtain e where e: "nls_bounds m ?ds ?rs = Inl e"
      by (cases "nls_bounds m ?ds ?rs") auto
    then have ne: "e \<noteq> NotImplementedError"
      using nls_bounds_Inl by fastforce
    have "eval_nls ext m df_arg out_arg vf app tol mi nrestart =
       (if nls_set_diff m df out_arg \<noteq> [] then (Inl (OutNotSubset (set (nls_set_diff m df out_arg))), 0)
        else if nls_var_fit_set m df vf = [] then (Inl NoVarFit, 0)
        else (Inl e, 0))"
      using Some e by (simp add: eval_nls_def Let_def)
    moreover note False [unfolded nls_bounds_Inr_iff]
    ultimately show ?thesis using Some ne
      by (auto simp: nls_set_diff_empty)
  qed
qed

text \<open>
  C3. Claim: for either optimisation component, every call with \<^verbatim>\<open>nrestart > 1\<close> fails
  with NotImplementedError rather than silently defaulting to a single start.
  \<^verbatim>\<open>eval_min\<close> never reads \<^verbatim>\<open>nrestart\<close>: its result is the one for \<^verbatim>\<open>nrestart = 1\<close>,
  whatever the value given.  On a valid model with \<^verbatim>\<open>nrestart = 2\<close> it invokes the
  solver once and returns the table of that single start, where \<^verbatim>\<open>eval_nls\<close>, called
  with \<^verbatim>\<open>nrestart = 2\<close> on valid inputs, raises NotImplementedError.
\<close>

theorem eval_min_ignores_nrestart:
  "eval_min ext m out_min out_geq out_eq meth tol nrestart mi df_start =
     eval_min ext m out_min out_geq out_eq meth tol 1 mi df_start \<and>
   eval_min (ext_stub hash_a_first) md_min (Some ''c'') (Some [''g1'', ''g2'']) None
       ''SLSQP'' (1 / 1000000) 2 50 None =
     (Inr \<lparr>columns = [''x'', ''y''], rows = [[Fin 0, Fin 0]]\<rparr>, 1) \<and>
   eval_nls (ext_stub hash_a_first) md_nls (Some df_data_example) None None
       False (1 / 1000) 25 2 = (Inl NotImplementedError, 0)"
proof -
  have "eval_min ext m out_min out_geq out_eq meth tol nrestart mi df_start =
     eval_min ext m out_min out_geq out_eq meth tol 1 mi df_start"
    by (simp add: eval_min_def)
  moreover have "eval_min (ext_stub hash_a_first) md_min (Some ''c'') (Some [''g1'', ''g2'']) None
       ''SLSQP'' (1 / 1000000) 2 50 None =
     (Inr \<lparr>columns = [''x'', ''y''], rows = [[Fin 0, Fin 0]]\<rparr>, 1)"
    by (simp add: opt_example_defs opt_defs)
  moreover have "eval_nls (ext_stub hash_a_first) md_nls (Some df_data_example) None None
       False (1 / 1000) 25 2 = (Inl NotImplementedError, 0)"
    by (simp add: opt_example_defs opt_defs)
  ultimately show ?thesis by simp
qed

subsection \<open>The order of the fit variables\<close>

lemma eval_nls_columns:
  assumes "eval_nls ext m (Some df) out_arg vf False tol mi nr = (Inr t, n)"
  shows "columns t = nls_var_fit (str_hash ext) m df vf"
  using assms
  by (auto simp: eval_nls_def Let_def nls_var_fit_def
      split: sum.splits prod.splits if_splits dest: select_columns)

text \<open>
  C4, as claimed: two runs of \<^verbatim>\<open>eval_nls\<close> with identical inputs produce \<^verbatim>\<open>var_fit\<close> in
  the same order.  The deterministic and the random fit variables are each listed by
  iterating a Python set of strings, whose order belongs to the interpreter process
  and not to the inputs: with the same model, data and arguments, a process that
  iterates \<open>a\<close> before \<open>b\<close> returns the columns \<open>a, b, e\<close> and one that iterates \<open>b\<close>
  before \<open>a\<close> returns \<open>b, a, e\<close>.
\<close>

theorem var_fit_order_counterexample:
  "eval_nls (ext_stub hash_a_first) md_nls (Some df_data_example) None None
       False (1 / 1000) 25 1 =
     (Inr \<lparr>columns = [''a'', ''b'', ''e''], rows = [[Fin 0, Fin 0, Fin 0]]\<rparr>, 1) \<and>
   eval_nls (ext_stub hash_a_last) md_nls (Some df_data_example) None None
       False (1 / 1000) 25 1 =
     (Inr \<lparr>columns = [''b'', ''a'', ''e''], rows = [[Fin 0, Fin 0, Fin 0]]\<rparr>, 1)"
  by (simp add: opt_example_defs opt_defs)

text \<open>
  C4, amended: the final \<^verbatim>\<open>var_fit\<close> is the list of the deterministic fit variables
  followed by the list of the random fit variables, for every iteration order of sets;
  two runs with identical inputs produce \<^verbatim>\<open>var_fit\<close> in the same order whenever the
  iteration orders of the two runs agree on the model's variables; and a call that
  returns without \<^verbatim>\<open>append\<close> returns the columns in the order of \<^verbatim>\<open>var_fit\<close>.
\<close>

theorem var_fit_order:
  "nls_var_fit h m df vf = nls_var_fit_det h m df vf @ nls_var_fit_rand h m df vf \<and>
   set (nls_var_fit_det h m df vf) = set (var_det m) \<inter> set (nls_var_fit_set m df vf) \<and>
   set (nls_var_fit_rand h m df vf) = set (var_rand m) \<inter> set (nls_var_fit_set m df vf) \<and>
   ((\<forall>x\<in>set (var_det m) \<union> set (var_rand m). \<forall>y\<in>set (var_det m) \<union> set (var_rand m).
        (h x \<le> h y) = (h' x \<le> h' y)) \<longrightarrow>
      nls_var_fit h m df vf = nls_var_fit h' m df vf) \<and>
   (eval_nls ext m (Some df) out_arg vf False tol mi nr = (Inr t, n) \<longrightarrow>
      columns t = nls_var_fit (str_hash ext) m df vf)"
proof -
  have "nls_var_fit h m df vf = nls_var_fit h' m df vf"
    if eq: "\<forall>x\<in>set (var_det m) \<union> set (var_rand m). \<forall>y\<in>set (var_det m) \<union> set (var_rand m).
        (h x \<le> h y) = (h' x \<le> h' y)"
  proof -
    have "sort_key h (py_intersection (py_set (var_det m)) (nls_var_fit_set m df vf)) =
          sort_key h' (py_intersection (py_set (var_det m)) (nls_var_fit_set m df vf))"
      by (rule sort_key_order_cong) (use eq in auto)
    moreover have "sort_key h (py_intersection (py_set (var_rand m)) (nls_var_fit_set m df vf)) =
          sort_key h' (py_intersection (py_set (var_rand m)) (nls_var_fit_set m df vf))"
      by (rule sort_key_order_cong) (use eq in auto)
    ultimately show ?thesis
      by (simp add: nls_var_fit_def nls_var_fit_det_def nls_var_fit_rand_def py_list_def)
  qed
  then show ?thesis
    using eval_nls_columns [of ext m df out_arg vf tol mi nr t n]
    by (simp add: nls_var_fit_def set_nls_var_fit_det set_nls_var_fit_rand)
qed

theorem var_fit_order_witness:
  "list_all (\<lambda>x. list_all (\<lambda>y.
        (hash_a_first x \<le> hash_a_first y) =
          ((if x = ''a'' then 5 else (9 :: nat)) \<le> (if y = ''a'' then 5 else 9)))
      (var_det md_nls @ var_rand md_nls)) (var_det md_nls @ var_rand md_nls) \<and>
   eval_nls (ext_stub hash_a_first) md_nls (Some df_data_example) None None
       False (1 / 1000) 25 1 =
     (Inr \<lparr>columns = [''a'', ''b'', ''e''], rows = [[Fin 0, Fin 0, Fin 0]]\<rparr>, 1) \<and>
   nls_var_fit hash_a_first md_nls df_data_example None = [''a'', ''b''] @ [''e''] \<and>
   nls_var_fit (\<lambda>x. if x = ''a'' then 5 else 9) md_nls df_data_example None = [''a'', ''b'', ''e'']"
proof -
  let ?h' = "\<lambda>x. if x = ''a'' then 5 else (9 :: nat)"
  have agree: "\<forall>x\<in>set (var_det md_nls) \<union> set (var_rand md_nls).
      \<forall>y\<in>set (var_det md_nls) \<union> set (var_rand md_nls).
        (hash_a_first x \<le> hash_a_first y) = (?h' x \<le> ?h' y)"
    by (simp add: md_nls_def hash_a_first_def)
  have r: "eval_nls (ext_stub hash_a_first) md_nls (Some df_data_example) None None
       False (1 / 1000) 25 1 =
     (Inr \<lparr>columns = [''a'', ''b'', ''e''], rows = [[Fin 0, Fin 0, Fin 0]]\<rparr>, 1)"
    by (simp add: opt_example_defs opt_defs)
  have h: "str_hash (ext_stub hash_a_first) = hash_a_first"
    by (simp add: ext_stub_def)
  note t = var_fit_order [of hash_a_first md_nls df_data_example None ?h' "ext_stub hash_a_first"
      None "1 / 1000" 25 1
      "\<lparr>columns = [''a'', ''b'', ''e''], rows = [[Fin 0, Fin 0, Fin 0]]\<rparr>" 1]
  from t agree have same: "nls_var_fit hash_a_first md_nls df_data_example None =
      nls_var_fit ?h' md_nls df_data_example None"
    by blast
  from t r h have cols: "nls_var_fit hash_a_first md_nls df_data_example None = [''a'', ''b'', ''e'']"
    by simp
  from agree have "list_all (\<lambda>x. list_all (\<lambda>y.
        (hash_a_first x \<le> hash_a_first y) = (?h' x \<le> ?h' y))
      (var_det md_nls @ var_rand md_nls)) (var_det md_nls @ var_rand md_nls)"
    by (simp add: list_all_iff)
  with r same cols show ?thesis by simp
qed

subsection \<open>Variables of width zero\<close>

lemma index_of_Some: "index_of c xs = Some i \<Longrightarrow> i < length xs \<and> xs ! i = c"
  by (induction xs arbitrary: i) (auto split: if_splits)

lemma index_of_mem: "c \<in> set xs \<Longrightarrow> \<exists>i. index_of c xs = Some i"
  by (induction xs) auto

lemma index_of_append: "c \<in> set xs \<Longrightarrow> index_of c (xs @ ys) = index_of c xs"
  by (induction xs) auto

lemma select_nominal_cell:
  assumes "select (eval_nominal ext m) names = Inr t"
  shows "rows t = [map (nominal ext m) names]"
proof -
  from assms have sub: "set names \<subseteq> set (var m)"
    using select_Inr_iff [of "eval_nominal ext m" names] by (auto simp: eval_nominal_def)
  have cell: "map (nominal ext m) (var m) ! the (index_of c (var m)) = nominal ext m c"
    if "c \<in> set names" for c
  proof -
    from that sub obtain i where i: "index_of c (var m) = Some i"
      using index_of_mem by blast
    with index_of_Some [OF i] show ?thesis by simp
  qed
  from assms have "rows t = [map (\<lambda>c. map (nominal ext m) (var m) ! the (index_of c (var m))) names]"
    by (auto simp: select_def eval_nominal_def split: list.splits)
  with cell show ?thesis by simp
qed

lemma nls_fixed_row_Inr:
  assumes "nls_fixed_row ext m var_fix fit x = Inr row"
  shows "set var_fix \<subseteq> set (var m) \<and>
         columns row = py_list (str_hash ext) var_fix @ map fst (py_dict (zip fit x)) \<and>
         rows row = [map (nominal ext m) (py_list (str_hash ext) var_fix) @ map snd (py_dict (zip fit x))]"
proof -
  let ?names = "py_list (str_hash ext) var_fix"
  from assms obtain t where t: "select (eval_nominal ext m) ?names = Inr t"
    by (auto simp: nls_fixed_row_def split: sum.splits)
  have sub: "set var_fix \<subseteq> set (var m)"
    using select_Inr_iff [of "eval_nominal ext m" ?names] t by (auto simp: eval_nominal_def)
  have rt: "rows t = [map (nominal ext m) ?names]"
    using t by (rule select_nominal_cell)
  have ct: "columns t = ?names" using t by (rule select_columns)
  from assms t rt ct sub show ?thesis
    by (auto simp: nls_fixed_row_def first_row_def concat_columns_def df_make_def)
qed

lemma column_fixed_row:
  assumes "nls_fixed_row ext m var_fix fit x = Inr row" "v \<in> set var_fix"
  shows "column row v = Inr [nominal ext m v]"
proof -
  let ?names = "py_list (str_hash ext) var_fix"
  note r = nls_fixed_row_Inr [OF assms(1)]
  have mem: "v \<in> set ?names" using assms(2) by simp
  then obtain i where i: "index_of v ?names = Some i"
    using index_of_mem by blast
  then have i': "i < length ?names" "?names ! i = v"
    using index_of_Some by blast+
  have "index_of v (columns row) = Some i"
    using r i mem by (simp add: index_of_append)
  moreover have "(map (nominal ext m) ?names @ map snd (py_dict (zip fit x))) ! i = nominal ext m v"
    using i' by (simp add: nth_append)
  ultimately show ?thesis using r by (simp add: column_def)
qed

lemma nls_fixed_row_succeeds:
  assumes "set var_fix \<subseteq> set (var m)"
  shows "\<exists>row. nls_fixed_row ext m var_fix fit x = Inr row"
proof -
  have "\<exists>t. select (eval_nominal ext m) (py_list (str_hash ext) var_fix) = Inr t"
    unfolding select_Inr_iff using assms by (simp add: eval_nominal_def)
  then obtain t where t: "select (eval_nominal ext m) (py_list (str_hash ext) var_fix) = Inr t"
    by blast
  then have "rows t = [map (nominal ext m) (py_list (str_hash ext) var_fix)]"
    by (rule select_nominal_cell)
  with t show ?thesis
    by (simp add: nls_fixed_row_def first_row_def)
qed

lemma index_of_append_notin:
  "c \<notin> set xs \<Longrightarrow> index_of c (xs @ ys) = map_option (\<lambda>i. length xs + i) (index_of c ys)"
proof (induction xs)
  case Nil
  then show ?case by (cases "index_of c ys") simp_all
next
  case (Cons a xs)
  then show ?case by (cases "index_of c ys") auto
qed

lemma select_shape:
  assumes "select df names = Inr t"
  shows "length (rows t) = length (rows df) \<and> (\<forall>r\<in>set (rows t). length r = length names)"
  using assms by (auto simp: select_def split: list.splits)

lemma nls_df_var_Inr:
  assumes "nls_df_var ext m df var_fix var_feat fit x = Inr T"
  obtains feat fixed where "select df (py_list (str_hash ext) var_feat) = Inr feat"
    "nls_fixed_row ext m var_fix fit x = Inr fixed" "T = tran_outer feat fixed"
  using assms by (auto simp: nls_df_var_def split: sum.splits)

lemma nls_df_var_column:
  assumes T: "nls_df_var ext m df var_fix var_feat fit x = Inr T"
    and v: "v \<in> set var_fix" "v \<notin> set var_feat"
  shows "column T v = Inr (replicate (length (rows df)) (nominal ext m v))"
proof -
  from T obtain feat fixed where
    feat: "select df (py_list (str_hash ext) var_feat) = Inr feat"
    and fixed: "nls_fixed_row ext m var_fix fit x = Inr fixed"
    and T': "T = tran_outer feat fixed"
    by (rule nls_df_var_Inr)
  let ?fc = "py_list (str_hash ext) var_feat"
  have cf: "columns feat = ?fc" using feat by (rule select_columns)
  note sh = select_shape [OF feat]
  note fr = nls_fixed_row_Inr [OF fixed]
  obtain rowf where rowf: "rows fixed = [rowf]" using fr by blast
  from column_fixed_row [OF fixed v(1)] obtain i where
    i: "index_of v (columns fixed) = Some i" and ri: "rowf ! i = nominal ext m v"
    using rowf by (auto simp: column_def split: option.splits)
  have notin: "v \<notin> set (columns feat)" using v(2) cf by simp
  have idx: "index_of v (columns T) = Some (length ?fc + i)"
    using notin i cf by (simp add: T' tran_outer_def index_of_append_notin)
  have rT: "rows T = map (\<lambda>r. r @ rowf) (rows feat)"
    using rowf by (simp add: T' tran_outer_def)
  have "map (\<lambda>r. r ! (length ?fc + i)) (rows T) = map (\<lambda>r. nominal ext m v) (rows feat)"
    unfolding rT using sh ri by (auto simp: nth_append)
  also have "\<dots> = replicate (length (rows df)) (nominal ext m v)"
    using sh by (simp add: map_replicate_const)
  finally show ?thesis using idx by (simp add: column_def)
qed

lemma nls_df_var_succeeds:
  assumes "set var_fix \<subseteq> set (var m)" "set var_feat \<subseteq> set (columns df)"
  shows "\<exists>T. nls_df_var ext m df var_fix var_feat fit x = Inr T"
proof -
  have "\<exists>t. select df (py_list (str_hash ext) var_feat) = Inr t"
    unfolding select_Inr_iff using assms(2) by simp
  moreover have "\<exists>row. nls_fixed_row ext m var_fix fit x = Inr row"
    using assms(1) by (rule nls_fixed_row_succeeds)
  ultimately show ?thesis by (auto simp: nls_df_var_def)
qed

lemma nls_fixed_row_eval_df:
  "nls_fixed_row (ext\<lparr>eval_df := ev'\<rparr>) m var_fix fit x = nls_fixed_row ext m var_fix fit x"
  by (simp add: nls_fixed_row_def eval_nominal_def)

lemma nls_df_var_eval_df:
  "nls_df_var (ext\<lparr>eval_df := ev'\<rparr>) m df var_fix var_feat fit x =
   nls_df_var ext m df var_fix var_feat fit x"
  by (simp add: nls_df_var_def nls_fixed_row_eval_df cong: sum.case_cong)

lemma nls_objective_eval_df:
  assumes v: "v \<in> set var_fix" "v \<notin> set var_feat"
    and agree: "\<forall>T. column T v = Inr (replicate (length (rows df)) (nominal ext m v)) \<longrightarrow>
                  ev' m T True = eval_df ext m T True"
  shows "nls_objective (ext\<lparr>eval_df := ev'\<rparr>) m df outs var_fix var_feat fit x =
         nls_objective ext m df outs var_fix var_feat fit x"
proof (cases "nls_df_var ext m df var_fix var_feat fit x")
  case (Inl e)
  then show ?thesis by (simp add: nls_objective_def nls_df_var_eval_df)
next
  case (Inr T)
  from nls_df_var_column [OF Inr v] agree
  have "ev' m T True = eval_df ext m T True" by blast
  with Inr show ?thesis
    by (simp add: nls_objective_def nls_df_var_eval_df cong: sum.case_cong)
qed

lemma nls_iterate_minimize:
  assumes "minimize ext' = minimize ext"
  shows "nls_iterate ext' f bounds var_fit tol mi guesses df_res calls =
         nls_iterate ext f bounds var_fit tol mi guesses df_res calls"
  using assms
  by (induction guesses arbitrary: df_res calls) (simp_all split: sum.splits)

lemma eval_nls_eval_df:
  assumes v: "v \<in> set (nls_var_fix m vf)" "v \<notin> set (nls_var_feat m df)"
    and agree: "\<forall>T. column T v = Inr (replicate (length (rows df)) (nominal ext m v)) \<longrightarrow>
                  ev' m T True = eval_df ext m T True"
  shows "eval_nls (ext\<lparr>eval_df := ev'\<rparr>) m (Some df) out_arg vf app tol mi nr =
         eval_nls ext m (Some df) out_arg vf app tol mi nr"
proof -
  have obj: "nls_objective (ext\<lparr>eval_df := ev'\<rparr>) m df outs (nls_var_fix m vf) (nls_var_feat m df) fit =
        nls_objective ext m df outs (nls_var_fix m vf) (nls_var_feat m df) fit" for outs fit
    by (rule ext)
      (rule nls_objective_eval_df [where v = v and ext = ext and m = m and df = df and ev' = ev',
          OF v agree])
  have it: "nls_iterate (ext\<lparr>eval_df := ev'\<rparr>) f bounds var_fit tol mi guesses df_res calls =
         nls_iterate ext f bounds var_fit tol mi guesses df_res calls"
    for f bounds var_fit guesses df_res calls
    by (rule nls_iterate_minimize) simp
  have en: "eval_nominal (ext\<lparr>eval_df := ev'\<rparr>) m = eval_nominal ext m"
    by (simp add: eval_nominal_def)
  show ?thesis
    by (simp add: eval_nls_def Let_def obj it en cong: sum.case_cong if_cong)
qed

text \<open>
  C5, as claimed: the value of a deterministic variable of width zero used during
  fitting is its nominal value.  The variable \<open>c\<close> of \<open>md_nls\<close> has width zero and the
  nominal value \<open>3\<close>.  With data that has a column \<open>c\<close> holding \<open>5\<close>, \<open>c\<close> is both in
  \<^verbatim>\<open>var_fix\<close> and in \<^verbatim>\<open>var_feat\<close> (line 89 does not remove the fixed variables), and
  the table handed to the Evaluator for a trial point has two columns \<open>c\<close>: the one of
  the data, with the value \<open>5\<close>, comes first, before the one of the fixed row.
\<close>

theorem zero_width_fixed_counterexample:
  "''c'' \<in> set (var_det md_nls) \<and> get_width (domain md_nls) ''c'' = Fin 0 \<and>
   nominal (ext_stub hash_a_first) md_nls ''c'' = Fin 3 \<and>
   nls_var_fix md_nls None = [''c''] \<and> nls_var_feat md_nls df_data_c = [''c'', ''t''] \<and>
   nls_df_var (ext_stub hash_a_first) md_nls df_data_c (nls_var_fix md_nls None)
       (nls_var_feat md_nls df_data_c) [''a'', ''b'', ''e''] [Fin 7, Fin 8, Fin 9] =
     Inr \<lparr>columns = [''c'', ''t'', ''c'', ''a'', ''b'', ''e''],
           rows = [[Fin 5, Fin 0, Fin 3, Fin 7, Fin 8, Fin 9],
                   [Fin 5, Fin 1, Fin 3, Fin 7, Fin 8, Fin 9]]\<rparr> \<and>
   column \<lparr>columns = [''c'', ''t'', ''c'', ''a'', ''b'', ''e''],
           rows = [[Fin 5, Fin 0, Fin 3, Fin 7, Fin 8, Fin 9],
                   [Fin 5, Fin 1, Fin 3, Fin 7, Fin 8, Fin 9]]\<rparr> ''c'' = Inr [Fin 5, Fin 5] \<and>
   eval_nls (ext_stub hash_a_first) md_nls (Some df_data_c) None None False (1 / 1000) 25 1 =
     (Inr \<lparr>columns = [''a'', ''b'', ''e''], rows = [[Fin 0, Fin 0, Fin 0]]\<rparr>, 1)"
  by (simp add: opt_example_defs opt_defs)

text \<open>
  C5, amended: a deterministic variable \<open>v\<close> whose Domain width is exactly zero is in
  \<^verbatim>\<open>var_fix\<close> whatever the caller's \<^verbatim>\<open>var_fix\<close> argument is, and is not in \<^verbatim>\<open>var_fit\<close>;
  the table returned without \<^verbatim>\<open>append\<close>, whose columns are the fitted ones, has no
  column \<open>v\<close>; the fixed row built for every trial point holds for \<open>v\<close> its value in the
  nominal row.  When \<open>v\<close> is not a column of the data, the column \<open>v\<close> of every table
  handed to the Evaluator holds that nominal value in every row (such a table exists
  for every trial point when every name of \<^verbatim>\<open>var_fix\<close> is a model variable), and the
  objective and the whole call depend on the Evaluator only through its answers on
  such tables: replacing the Evaluator by any other that agrees with it on them changes
  neither.
\<close>

theorem zero_width_fixed:
  assumes "v \<in> set (var_det m)" and "get_width (domain m) v = Fin 0"
  shows "v \<in> set (nls_var_fix m vf) \<and>
    v \<notin> set (nls_var_fit h m df vf) \<and>
    (eval_nls ext m (Some df) out_arg vf False tol mi nr = (Inr t, n) \<longrightarrow> v \<notin> set (columns t)) \<and>
    (nls_fixed_row ext m (nls_var_fix m vf) fit x = Inr row \<longrightarrow>
       column row v = Inr [nominal ext m v]) \<and>
    (v \<notin> set (columns df) \<longrightarrow>
       (set (nls_var_fix m vf) \<subseteq> set (var m) \<longrightarrow>
          (\<exists>T. nls_df_var ext m df (nls_var_fix m vf) (nls_var_feat m df) fit x = Inr T)) \<and>
       (nls_df_var ext m df (nls_var_fix m vf) (nls_var_feat m df) fit x = Inr df_var \<longrightarrow>
          column df_var v = Inr (replicate (length (rows df)) (nominal ext m v))) \<and>
       ((\<forall>T. column T v = Inr (replicate (length (rows df)) (nominal ext m v)) \<longrightarrow>
              ev' m T True = eval_df ext m T True) \<longrightarrow>
          nls_objective (ext\<lparr>eval_df := ev'\<rparr>) m df outs (nls_var_fix m vf) (nls_var_feat m df) fit x =
            nls_objective ext m df outs (nls_var_fix m vf) (nls_var_feat m df) fit x \<and>
          eval_nls (ext\<lparr>eval_df := ev'\<rparr>) m (Some df) out_arg vf app tol mi nr =
            eval_nls ext m (Some df) out_arg vf app tol mi nr))"
proof -
  have vfix: "v \<in> set (nls_var_fix m vf)"
    using assms by (simp add: set_nls_var_fix)
  then have nofit: "v \<notin> set (nls_var_fit h' m df vf)" for h'
    by (simp add: nls_var_fit_def set_nls_var_fit_det set_nls_var_fit_rand set_nls_var_fit_set)
  have cols: "v \<notin> set (columns t)"
    if "eval_nls ext m (Some df) out_arg vf False tol mi nr = (Inr t, n)"
    using eval_nls_columns [OF that] nofit by simp
  have frow: "column row v = Inr [nominal ext m v]"
    if "nls_fixed_row ext m (nls_var_fix m vf) fit x = Inr row"
    using that vfix by (rule column_fixed_row)
  have feat: "set (nls_var_feat m df) \<subseteq> set (columns df)"
    by (simp add: nls_var_feat_def)
  have tables: "(set (nls_var_fix m vf) \<subseteq> set (var m) \<longrightarrow>
          (\<exists>T. nls_df_var ext m df (nls_var_fix m vf) (nls_var_feat m df) fit x = Inr T)) \<and>
       (nls_df_var ext m df (nls_var_fix m vf) (nls_var_feat m df) fit x = Inr df_var \<longrightarrow>
          column df_var v = Inr (replicate (length (rows df)) (nominal ext m v))) \<and>
       ((\<forall>T. column T v = Inr (replicate (length (rows df)) (nominal ext m v)) \<longrightarrow>
              ev' m T True = eval_df ext m T True) \<longrightarrow>
          nls_objective (ext\<lparr>eval_df := ev'\<rparr>) m df outs (nls_var_fix m vf) (nls_var_feat m df) fit x =
            nls_objective ext m df outs (nls_var_fix m vf) (nls_var_feat m df) fit x \<and>
          eval_nls (ext\<lparr>eval_df := ev'\<rparr>) m (Some df) out_arg vf app tol mi nr =
            eval_nls ext m (Some df) out_arg vf app tol mi nr)"
    if nodata: "v \<notin> set (columns df)"
  proof (intro conjI impI)
    have nofeat: "v \<notin> set (nls_var_feat m df)"
      using nodata feat by blast
    {
      assume "set (nls_var_fix m vf) \<subseteq> set (var m)"
      then show "\<exists>T. nls_df_var ext m df (nls_var_fix m vf) (nls_var_feat m df) fit x = Inr T"
        using feat by (rule nls_df_var_succeeds)
    }
    {
      assume "nls_df_var ext m df (nls_var_fix m vf) (nls_var_feat m df) fit x = Inr df_var"
      then show "column df_var v = Inr (replicate (length (rows df)) (nominal ext m v))"
        using vfix nofeat by (rule nls_df_var_column)
    }
    {
      assume agree: "\<forall>T. column T v = Inr (replicate (length (rows df)) (nominal ext m v)) \<longrightarrow>
              ev' m T True = eval_df ext m T True"
      show "nls_objective (ext\<lparr>eval_df := ev'\<rparr>) m df outs (nls_var_fix m vf) (nls_var_feat m df) fit x =
            nls_objective ext m df outs (nls_var_fix m vf) (nls_var_feat m df) fit x"
        by (rule nls_objective_eval_df [where v = v and ext = ext and m = m and df = df
              and ev' = ev', OF vfix nofeat agree])
      show "eval_nls (ext\<lparr>eval_df := ev'\<rparr>) m (Some df) out_arg vf app tol mi nr =
            eval_nls ext m (Some df) out_arg vf app tol mi nr"
        by (rule eval_nls_eval_df [where v = v and ext = ext and m = m and df = df
              and ev' = ev', OF vfix nofeat agree])
    }
  qed
  from vfix nofit cols frow tables show ?thesis by blast
qed

theorem zero_width_fixed_witness:
  "''c'' \<in> set (var_det md_nls) \<and> get_width (domain md_nls) ''c'' = Fin 0 \<and>
   ''c'' \<notin> set (columns df_data_example) \<and>
   nls_var_fix md_nls None = [''c''] \<and>
   ''c'' \<notin> set (nls_var_fit hash_a_first md_nls df_data_example None) \<and>
   eval_nls (ext_stub hash_a_first) md_nls (Some df_data_example) None None
       False (1 / 1000) 25 1 =
     (Inr \<lparr>columns = [''a'', ''b'', ''e''], rows = [[Fin 0, Fin 0, Fin 0]]\<rparr>, 1) \<and>
   set (nls_var_fix md_nls None) \<subseteq> set (var md_nls) \<and>
   nominal (ext_stub hash_a_first) md_nls ''c'' = Fin 3 \<and>
   nls_fixed_row (ext_stub hash_a_first) md_nls (nls_var_fix md_nls None)
       [''a'', ''b'', ''e''] [Fin 7, Fin 8, Fin 9] =
     Inr \<lparr>columns = [''c'', ''a'', ''b'', ''e''], rows = [[Fin 3, Fin 7, Fin 8, Fin 9]]\<rparr> \<and>
   nls_df_var (ext_stub hash_a_first) md_nls df_data_example (nls_var_fix md_nls None)
       (nls_var_feat md_nls df_data_example) [''a'', ''b'', ''e''] [Fin 7, Fin 8, Fin 9] =
     Inr \<lparr>columns = [''t'', ''c'', ''a'', ''b'', ''e''],
           rows = [[Fin 0, Fin 3, Fin 7, Fin 8, Fin 9], [Fin 1, Fin 3, Fin 7, Fin 8, Fin 9]]\<rparr> \<and>
   column \<lparr>columns = [''t'', ''c'', ''a'', ''b'', ''e''],
           rows = [[Fin 0, Fin 3, Fin 7, Fin 8, Fin 9], [Fin 1, Fin 3, Fin 7, Fin 8, Fin 9]]\<rparr> ''c''
     = Inr [Fin 3, Fin 3] \<and>
   eval_nls ((ext_stub hash_a_first)\<lparr>eval_df := eval_df_nominal_c\<rparr>) md_nls
       (Some df_data_example) None None False (1 / 1000) 25 1 =
     (Inr \<lparr>columns = [''a'', ''b'', ''e''], rows = [[Fin 0, Fin 0, Fin 0]]\<rparr>, 1)"
proof -
  let ?ext = "ext_stub hash_a_first"
  let ?fit = "[''a'', ''b'', ''e'']"
  let ?x = "[Fin 7, Fin 8, Fin 9]"
  let ?row = "\<lparr>columns = [''c'', ''a'', ''b'', ''e''], rows = [[Fin 3, Fin 7, Fin 8, Fin 9]]\<rparr>"
  let ?T = "\<lparr>columns = [''t'', ''c'', ''a'', ''b'', ''e''],
           rows = [[Fin 0, Fin 3, Fin 7, Fin 8, Fin 9], [Fin 1, Fin 3, Fin 7, Fin 8, Fin 9]]\<rparr>"
  let ?res = "\<lparr>columns = [''a'', ''b'', ''e''], rows = [[Fin 0, Fin 0, Fin 0]]\<rparr>"
  have v: "''c'' \<in> set (var_det md_nls)" "get_width (domain md_nls) ''c'' = Fin 0"
    by (simp_all add: md_nls_def dm_nls_def)
  have nodata: "''c'' \<notin> set (columns df_data_example)"
    by (simp add: df_data_example_def)
  have r: "eval_nls ?ext md_nls (Some df_data_example) None None False (1 / 1000) 25 1 = (Inr ?res, 1)"
    by (simp add: opt_example_defs opt_defs)
  have f: "nls_var_fix md_nls None = [''c'']"
    by (simp add: opt_example_defs opt_defs)
  have row: "nls_fixed_row ?ext md_nls (nls_var_fix md_nls None) ?fit ?x = Inr ?row"
    by (simp add: opt_example_defs opt_defs)
  have T: "nls_df_var ?ext md_nls df_data_example (nls_var_fix md_nls None)
       (nls_var_feat md_nls df_data_example) ?fit ?x = Inr ?T"
    by (simp add: opt_example_defs opt_defs)
  have nom: "nominal ?ext md_nls ''c'' = Fin 3"
    by (simp add: opt_example_defs)
  have sub: "set (nls_var_fix md_nls None) \<subseteq> set (var md_nls)"
    by (simp add: f) (simp add: md_nls_def)
  have agree: "\<forall>T. column T ''c'' =
        Inr (replicate (length (rows df_data_example)) (nominal ?ext md_nls ''c'')) \<longrightarrow>
      eval_df_nominal_c md_nls T True = eval_df ?ext md_nls T True"
    by (simp add: nom) (simp add: eval_df_nominal_c_def ext_stub_def df_data_example_def)
  note t = zero_width_fixed [OF v, of None hash_a_first df_data_example ?ext
      None "1 / 1000" 25 1 ?res 1 ?fit ?x ?row ?T eval_df_nominal_c "[''y'']" False]
  from t nodata agree
  have "eval_nls (?ext\<lparr>eval_df := eval_df_nominal_c\<rparr>) md_nls (Some df_data_example) None None
          False (1 / 1000) 25 1 =
        eval_nls ?ext md_nls (Some df_data_example) None None False (1 / 1000) 25 1"
    by blast
  with t v nodata r f row T nom sub show ?thesis
    by (simp add: df_data_example_def)
qed

subsection \<open>The preconditions of \<^verbatim>\<open>eval_min\<close>\<close>

lemma set_out_diff:
  "set (out_diff m names_arg) = (case names_arg of None \<Rightarrow> {} | Some names \<Rightarrow> set names - set (out m))"
  by (auto simp: out_diff_def split: option.splits)

lemma out_diff_empty:
  "(out_diff m names_arg = []) = (\<forall>names. names_arg = Some names \<longrightarrow> set names \<subseteq> set (out m))"
proof -
  have "(out_diff m names_arg = []) = (set (out_diff m names_arg) = {})" by simp
  also have "\<dots> = (\<forall>names. names_arg = Some names \<longrightarrow> set names \<subseteq> set (out m))"
    by (auto simp: set_out_diff split: option.splits)
  finally show ?thesis .
qed

text \<open>
  C7, as claimed: when the model has no random variable, \<^verbatim>\<open>out_min\<close> is a model output
  and every name of \<^verbatim>\<open>out_geq\<close> and \<^verbatim>\<open>out_eq\<close> is a model output, \<^verbatim>\<open>eval_min\<close> proceeds
  to the solver.  It does not when the caller's \<^verbatim>\<open>df_start\<close> lacks a model variable:
  all the preconditions hold for the model with variables \<open>x\<close> and \<open>y\<close>, and with a
  start table that has the column \<open>x\<close> only, \<^verbatim>\<open>df_start[model.var]\<close> raises KeyError
  before the solver is invoked.
\<close>

theorem eval_min_counterexample:
  "n_var_rand md_min = 0 \<and> ''c'' \<in> set (out md_min) \<and> set [''g1'', ''g2''] \<subseteq> set (out md_min) \<and>
   eval_min (ext_stub hash_a_first) md_min (Some ''c'') (Some [''g1'', ''g2'']) None
       ''SLSQP'' (1 / 1000000) 1 50 (Some \<lparr>columns = [''x''], rows = [[Fin 1]]\<rparr>) =
     (Inl (KeyError ''y''), 0)"
  by (simp add: opt_example_defs opt_defs)

text \<open>
  C7, amended: \<^verbatim>\<open>eval_min\<close> raises a configuration error, with no solver invocation,
  whenever the model has a random variable, or (else) \<^verbatim>\<open>out_min\<close> is not a model output,
  or (else) some name of \<^verbatim>\<open>out_geq\<close> is not a model output, or (else) some name of
  \<^verbatim>\<open>out_eq\<close> is not; the last two errors carry the missing names of their own list.
  When all these preconditions hold and the start table, if the caller gives one, has
  a column for every model variable, the solver is invoked exactly once.
\<close>

theorem eval_min_preconditions:
  "(0 < n_var_rand m \<longrightarrow>
      eval_min ext m out_min out_geq out_eq meth tol nrestart mi df_start =
        (Inl HasRandomVariables, 0)) \<and>
   (n_var_rand m = 0 \<and> (\<forall>name. out_min = Some name \<longrightarrow> name \<notin> set (out m)) \<longrightarrow>
      eval_min ext m out_min out_geq out_eq meth tol nrestart mi df_start =
        (Inl MissingOutMin, 0)) \<and>
   (n_var_rand m = 0 \<and> out_min = Some name \<and> name \<in> set (out m) \<and>
    out_geq = Some geq \<and> \<not> set geq \<subseteq> set (out m) \<longrightarrow>
      eval_min ext m out_min out_geq out_eq meth tol nrestart mi df_start =
        (Inl (MissingOutGeq (set geq - set (out m))), 0)) \<and>
   (n_var_rand m = 0 \<and> out_min = Some name \<and> name \<in> set (out m) \<and>
    (\<forall>names. out_geq = Some names \<longrightarrow> set names \<subseteq> set (out m)) \<and>
    out_eq = Some eqs \<and> \<not> set eqs \<subseteq> set (out m) \<longrightarrow>
      eval_min ext m out_min out_geq out_eq meth tol nrestart mi df_start =
        (Inl (MissingOutEq (set eqs - set (out m))), 0)) \<and>
   (n_var_rand m = 0 \<and> out_min = Some name \<and> name \<in> set (out m) \<and>
    (\<forall>names. out_geq = Some names \<longrightarrow> set names \<subseteq> set (out m)) \<and>
    (\<forall>names. out_eq = Some names \<longrightarrow> set names \<subseteq> set (out m)) \<and>
    (\<forall>start. df_start = Some start \<longrightarrow> set (var m) \<subseteq> set (columns start)) \<longrightarrow>
      snd (eval_min ext m out_min out_geq out_eq meth tol nrestart mi df_start) = 1)"
proof (intro conjI impI)
  assume "0 < n_var_rand m"
  then show "eval_min ext m out_min out_geq out_eq meth tol nrestart mi df_start =
        (Inl HasRandomVariables, 0)"
    by (simp add: eval_min_def)
next
  assume "n_var_rand m = 0 \<and> (\<forall>name. out_min = Some name \<longrightarrow> name \<notin> set (out m))"
  then show "eval_min ext m out_min out_geq out_eq meth tol nrestart mi df_start =
        (Inl MissingOutMin, 0)"
    by (simp add: eval_min_def split: option.splits)
next
  assume a: "n_var_rand m = 0 \<and> out_min = Some name \<and> name \<in> set (out m) \<and>
    out_geq = Some geq \<and> \<not> set geq \<subseteq> set (out m)"
  then have "out_diff m out_geq \<noteq> []" by (simp add: out_diff_empty)
  moreover have "set (out_diff m out_geq) = set geq - set (out m)"
    using a by (simp add: set_out_diff)
  ultimately show "eval_min ext m out_min out_geq out_eq meth tol nrestart mi df_start =
        (Inl (MissingOutGeq (set geq - set (out m))), 0)"
    using a by (simp add: eval_min_def)
next
  assume a: "n_var_rand m = 0 \<and> out_min = Some name \<and> name \<in> set (out m) \<and>
    (\<forall>names. out_geq = Some names \<longrightarrow> set names \<subseteq> set (out m)) \<and>
    out_eq = Some eqs \<and> \<not> set eqs \<subseteq> set (out m)"
  then have "out_diff m out_geq = []" "out_diff m out_eq \<noteq> []"
    by (simp_all add: out_diff_empty)
  moreover have "set (out_diff m out_eq) = set eqs - set (out m)"
    using a by (simp add: set_out_diff)
  ultimately show "eval_min ext m out_min out_geq out_eq meth tol nrestart mi df_start =
        (Inl (MissingOutEq (set eqs - set (out m))), 0)"
    using a by (simp add: eval_min_def)
next
  assume a: "n_var_rand m = 0 \<and> out_min = Some name \<and> name \<in> set (out m) \<and>
    (\<forall>names. out_geq = Some names \<longrightarrow> set names \<subseteq> set (out m)) \<and>
    (\<forall>names. out_eq = Some names \<longrightarrow> set names \<subseteq> set (out m)) \<and>
    (\<forall>start. df_start = Some start \<longrightarrow> set (var m) \<subseteq> set (columns start))"
  then have d: "out_diff m out_geq = []" "out_diff m out_eq = []"
    by (simp_all add: out_diff_empty)
  let ?start = "case df_start of None \<Rightarrow> eval_nominal ext m | Some t \<Rightarrow> t"
  have "set (var m) \<subseteq> set (columns ?start)"
    using a by (auto simp: eval_nominal_def split: option.splits)
  then obtain x0 where "select ?start (var m) = Inr x0"
    using select_Inr_iff [of ?start "var m"] by blast
  then show "snd (eval_min ext m out_min out_geq out_eq meth tol nrestart mi df_start) = 1"
    using a d by (simp add: eval_min_def Let_def split: sum.splits)
qed

theorem eval_min_preconditions_witness:
  "0 < n_var_rand md_nls \<and>
   eval_min (ext_stub hash_a_first) md_nls (Some ''y'') None None ''SLSQP'' (1 / 1000000) 1 50 None =
     (Inl HasRandomVariables, 0) \<and>
   n_var_rand md_min = 0 \<and> ''f'' \<notin> set (out md_min) \<and>
   eval_min (ext_stub hash_a_first) md_min (Some ''f'') None None ''SLSQP'' (1 / 1000000) 1 50 None =
     (Inl MissingOutMin, 0) \<and>
   ''c'' \<in> set (out md_min) \<and> \<not> set [''g1'', ''g3''] \<subseteq> set (out md_min) \<and>
   eval_min (ext_stub hash_a_first) md_min (Some ''c'') (Some [''g1'', ''g3'']) (Some [''g4''])
       ''SLSQP'' (1 / 1000000) 1 50 None =
     (Inl (MissingOutGeq {''g3''}), 0) \<and>
   set [''g1''] \<subseteq> set (out md_min) \<and> \<not> set [''g4'', ''g2''] \<subseteq> set (out md_min) \<and>
   eval_min (ext_stub hash_a_first) md_min (Some ''c'') (Some [''g1'']) (Some [''g4'', ''g2''])
       ''SLSQP'' (1 / 1000000) 1 50 None =
     (Inl (MissingOutEq {''g4''}), 0) \<and>
   set [''g2''] \<subseteq> set (out md_min) \<and>
   set (var md_min) \<subseteq> set (columns \<lparr>columns = [''y'', ''x''], rows = [[Fin 2, Fin 1]]\<rparr>) \<and>
   snd (eval_min (ext_stub hash_a_first) md_min (Some ''c'') (Some [''g1'']) (Some [''g2''])
       ''SLSQP'' (1 / 1000000) 1 50 (Some \<lparr>columns = [''y'', ''x''], rows = [[Fin 2, Fin 1]]\<rparr>)) = 1"
proof -
  let ?ext = "ext_stub hash_a_first"
  let ?start = "\<lparr>columns = [''y'', ''x''], rows = [[Fin 2, Fin 1 :: pyfloat]]\<rparr>"
  have m: "0 < n_var_rand md_nls" "n_var_rand md_min = 0" "''f'' \<notin> set (out md_min)"
    "''c'' \<in> set (out md_min)" "\<not> set [''g1'', ''g3''] \<subseteq> set (out md_min)"
    "set [''g1''] \<subseteq> set (out md_min)" "\<not> set [''g4'', ''g2''] \<subseteq> set (out md_min)"
    "set [''g2''] \<subseteq> set (out md_min)" "set (var md_min) \<subseteq> set (columns ?start)"
    by (simp_all add: n_var_rand_def md_nls_def md_min_def)
  have d: "set [''g1'', ''g3''] - set (out md_min) = {''g3''}"
    "set [''g4'', ''g2''] - set (out md_min) = {''g4''}"
    by (auto simp: md_min_def)
  note t = eval_min_preconditions
  from t [of md_nls ?ext "Some ''y''" None None "''SLSQP''" "1 / 1000000" 1 50 None]
       t [of md_min ?ext "Some ''f''" None None "''SLSQP''" "1 / 1000000" 1 50 None]
       t [of md_min ?ext "Some ''c''" "Some [''g1'', ''g3'']" "Some [''g4'']"
            "''SLSQP''" "1 / 1000000" 1 50 None "''c''" "[''g1'', ''g3'']"]
       t [of md_min ?ext "Some ''c''" "Some [''g1'']" "Some [''g4'', ''g2'']"
            "''SLSQP''" "1 / 1000000" 1 50 None "''c''" "[]" "[''g4'', ''g2'']"]
       t [of md_min ?ext "Some ''c''" "Some [''g1'']" "Some [''g2'']"
            "''SLSQP''" "1 / 1000000" 1 50 "Some ?start" "''c''"]
       m d
  show ?thesis by simp
qed

end
